theory Spec2Isabelle
  imports Complex_Main
begin

section \<open>Python values used by the triage assistant\<close>

text \<open>
  The sources are Python. A \<open>str\<close> is modelled as a \<open>string\<close>; the model is exact on ASCII
  text (a character beyond ASCII is kept as the bytes of its UTF-8 encoding and is neither
  case-mapped nor taken for a digit or a blank). A Python \<open>float\<close> is modelled by the real
  number it is. In the fallback embedding its arithmetic is taken exact, so rounding error is
  outside the model there; in the confidence computation, whose result is rounded to two
  decimals, every operation rounds to the nearest double. Exceptions are values of
  \<open>py_exception\<close>; a function that can raise returns \<open>py_exception + 'a\<close>. \<open>StoreError\<close>
  stands for an exception raised by the store library, with the name of its class.
\<close>

datatype py_exception =
    ValueError string
  | AttributeError
  | IndexError
  | StoreError string

fun exc_class :: "py_exception \<Rightarrow> string" where
  "exc_class (ValueError m) = ''ValueError''"
| "exc_class AttributeError = ''AttributeError''"
| "exc_class IndexError = ''IndexError''"
| "exc_class (StoreError c) = c"

text \<open>Scalars held in metadata and in the dictionaries built from it.\<close>

datatype pyval = PyNone | PyStr string | PyInt int | PyBool bool

type_synonym pydict = "(string \<times> pyval) list"

definition dict_get :: "pydict \<Rightarrow> string \<Rightarrow> pyval \<Rightarrow> pyval" where
  "dict_get d k dflt = (case map_of d k of Some v \<Rightarrow> v | None \<Rightarrow> dflt)"

subsection \<open>\<open>str\<close> methods\<close>

definition lower_char :: "char \<Rightarrow> char" where
  "lower_char c =
     (case map_of (zip ''ABCDEFGHIJKLMNOPQRSTUVWXYZ'' ''abcdefghijklmnopqrstuvwxyz'') c of
        Some d \<Rightarrow> d | None \<Rightarrow> c)"

definition upper_char :: "char \<Rightarrow> char" where
  "upper_char c =
     (case map_of (zip ''abcdefghijklmnopqrstuvwxyz'' ''ABCDEFGHIJKLMNOPQRSTUVWXYZ'') c of
        Some d \<Rightarrow> d | None \<Rightarrow> c)"

definition py_lower :: "string \<Rightarrow> string" where
  "py_lower s = map lower_char s"

definition py_upper :: "string \<Rightarrow> string" where
  "py_upper s = map upper_char s"

definition py_isspace :: "char \<Rightarrow> bool" where
  "py_isspace c \<longleftrightarrow>
     c \<in> set [CHR 0x09, CHR 0x0A, CHR 0x0B, CHR 0x0C, CHR 0x0D,
               CHR 0x1C, CHR 0x1D, CHR 0x1E, CHR 0x1F, CHR 0x20]"

text \<open>\<open>s.split()\<close>: the maximal runs of non-blank characters.\<close>

fun split_from :: "string \<Rightarrow> string \<Rightarrow> string list" where
  "split_from cur [] = (if cur = [] then [] else [cur])"
| "split_from cur (c # cs) =
     (if py_isspace c
      then (if cur = [] then split_from [] cs else cur # split_from [] cs)
      else split_from (cur @ [c]) cs)"

definition py_split :: "string \<Rightarrow> string list" where
  "py_split s = split_from [] s"

definition py_strip :: "string \<Rightarrow> string" where
  "py_strip s = rev (dropWhile py_isspace (rev (dropWhile py_isspace s)))"

fun py_join :: "string \<Rightarrow> string list \<Rightarrow> string" where
  "py_join sep [] = []"
| "py_join sep [x] = x"
| "py_join sep (x # y # ys) = x @ sep @ py_join sep (y # ys)"

definition startswith :: "string \<Rightarrow> string \<Rightarrow> bool" where
  "startswith s p \<longleftrightarrow> take (length p) s = p"

text \<open>\<open>sub in s\<close> for strings.\<close>

fun py_in :: "string \<Rightarrow> string \<Rightarrow> bool" where
  "py_in sub [] = (sub = [])"
| "py_in sub (c # cs) = (startswith (c # cs) sub \<or> py_in sub cs)"

subsection \<open>Integers and text\<close>

definition digit_char :: "nat \<Rightarrow> char" where
  "digit_char d = ''0123456789'' ! d"

fun str_nat :: "nat \<Rightarrow> string" where
  "str_nat n = (if n < 10 then [digit_char n] else str_nat (n div 10) @ [digit_char (n mod 10)])"

declare str_nat.simps [simp del]

text \<open>The number a string of decimal digits denotes.\<close>

definition digit_val :: "char \<Rightarrow> nat" where
  "digit_val c =
     (case map_of (zip ''0123456789'' [0, 1, 2, 3, 4, 5, 6, 7, 8, 9]) c of
        Some d \<Rightarrow> d | None \<Rightarrow> 0)"

definition nat_of_digits :: "string \<Rightarrow> nat" where
  "nat_of_digits s = foldl (\<lambda>a c. 10 * a + digit_val c) 0 s"

text \<open>
  \<open>int(s)\<close> on a string: the blanks \<open>int\<close> accepts around the number (tab, line feed,
  vertical tab, form feed, carriage return and space) are dropped, a sign may come first,
  and single underscores may stand between digits. A text of more than 4300 digits is
  refused (the interpreter's default limit). \<open>None\<close> stands for the \<open>ValueError\<close> raised on
  any text that is not accepted.
\<close>

definition is_digit :: "char \<Rightarrow> bool" where
  "is_digit c \<longleftrightarrow> c \<in> set ''0123456789''"

definition int_blank :: "char \<Rightarrow> bool" where
  "int_blank c \<longleftrightarrow> c \<in> set [CHR 0x09, CHR 0x0A, CHR 0x0B, CHR 0x0C, CHR 0x0D, CHR 0x20]"

definition int_max_str_digits :: nat where
  "int_max_str_digits = 4300"

fun digits_ok :: "string \<Rightarrow> bool" where
  "digits_ok [] = False"
| "digits_ok [c] = is_digit c"
| "digits_ok (c # d # cs) =
     (is_digit c \<and> (if d = CHR ''_'' then digits_ok cs else digits_ok (d # cs)))"

definition py_int :: "string \<Rightarrow> int option" where
  "py_int s =
     (let t = rev (dropWhile int_blank (rev (dropWhile int_blank s)));
          negative = (t \<noteq> [] \<and> hd t = CHR ''-'');
          body = (if t \<noteq> [] \<and> (hd t = CHR ''-'' \<or> hd t = CHR ''+'') then tl t else t)
      in if digits_ok body \<and> length (filter is_digit body) \<le> int_max_str_digits
         then Some ((if negative then - 1 else 1)
                    * int (nat_of_digits (filter (\<lambda>c. c \<noteq> CHR ''_'') body)))
         else None)"

definition str_int :: "int \<Rightarrow> string" where
  "str_int i = (if i < 0 then CHR ''-'' # str_nat (nat (- i)) else str_nat (nat i))"

fun str_pyval :: "pyval \<Rightarrow> string" where
  "str_pyval PyNone = ''None''"
| "str_pyval (PyStr s) = s"
| "str_pyval (PyInt i) = str_int i"
| "str_pyval (PyBool b) = (if b then ''True'' else ''False'')"

subsection \<open>Double-precision arithmetic\<close>

text \<open>
  A double is the real number it is exactly. \<open>fl\<close> rounds a real to the nearest double,
  a tie going to the even mantissa (binary64 with 53 bits of mantissa; overflow and the
  subnormal range are outside the model). \<open>a + b\<close>, \<open>a - b\<close> and \<open>a / b\<close> on floats
  round their exact result; \<open>sum\<close> adds from 0, left to right, one rounded addition per
  element (from CPython 3.12 on \<open>sum\<close> also carries a compensation term for the rounding
  errors of these additions; it stays zero on a list of one element).
\<close>

definition round_half_even :: "real \<Rightarrow> int" where
  "round_half_even y =
     (let f = \<lfloor>y\<rfloor>; d = y - of_int f
      in if d < 1 / 2 then f else if d > 1 / 2 then f + 1 else if even f then f else f + 1)"

definition binade :: "real \<Rightarrow> int" where
  "binade x = \<lfloor>log 2 \<bar>x\<bar>\<rfloor>"

definition fl :: "real \<Rightarrow> real" where
  "fl x =
     (if x = 0 then 0
      else of_int (round_half_even (x / 2 powr of_int (binade x - 52)))
           * 2 powr of_int (binade x - 52))"

definition fadd :: "real \<Rightarrow> real \<Rightarrow> real" where
  "fadd a b = fl (a + b)"

definition fsub :: "real \<Rightarrow> real \<Rightarrow> real" where
  "fsub a b = fl (a - b)"

definition fdiv :: "real \<Rightarrow> real \<Rightarrow> real" where
  "fdiv a b = fl (a / b)"

definition float_sum :: "real list \<Rightarrow> real" where
  "float_sum xs = foldl fadd 0 xs"

text \<open>
  \<open>round(x, 2)\<close> on a double \<open>x\<close> returns the double nearest to the two-decimal number
  nearest to \<open>x\<close>, a tie going to the even hundredth. That double is given here by the
  two-decimal number itself, which is how Python prints it; a float literal of the source
  such as \<open>0.1\<close> or \<open>0.85\<close> that is returned as it is, is given by its decimal in the same
  way.
\<close>

definition py_round2 :: "real \<Rightarrow> real" where
  "py_round2 x = of_int (round_half_even (x * 100)) / 100"
section \<open>The knowledge store (\<open>vector_db.py\<close>)\<close>

record Document =
  content :: string
  metadata :: pydict
  source :: string

record indexed_record =
  rec_id :: string
  rec_content :: string
  rec_metadata :: pydict
  rec_embedding :: "real list"

text \<open>
  The store object. \<open>embedding_model\<close> is the learned sentence-embedding model when it was
  loaded; \<open>collection\<close> is the content of the persisted collection, in insertion order.
\<close>

record HealthcareVectorDB =
  use_custom_embeddings :: bool
  embedding_model :: "(string list \<Rightarrow> real list list) option"
  collection :: "indexed_record list"

subsection \<open>The fallback embedding\<close>

text \<open>
  \<open>simple_embedding\<close> calls the interpreter's built-in \<open>hash\<close> on each token; that function
  is the parameter \<open>h\<close>. The method is given in its three steps: \<open>embed_word\<close> is the body
  of its loop, \<open>raw_embedding\<close> the loop over the first 20 tokens, starting from 384 zeros,
  and \<open>normalize\<close> the division by the norm that ends it.
\<close>

text \<open>\<open>embedding[k] += a\<close>\<close>

definition bump :: "real list \<Rightarrow> nat \<Rightarrow> real \<Rightarrow> real list" where
  "bump embedding k a = embedding[k := embedding ! k + a]"

definition embed_word :: "(string \<Rightarrow> int) \<Rightarrow> real list \<Rightarrow> nat \<times> string \<Rightarrow> real list" where
  "embed_word h embedding iw =
     (let i = fst iw; word = snd iw;
          word_hash = h word mod 1000;
          pos = nat ((word_hash * 13) mod 384);
          e1 = bump embedding pos (1 / (real i + 1));
          e2 = (if word \<in> set [''pain'', ''chest'', ''heart'', ''emergency'']
                then bump e1 0 2 else e1);
          e3 = (if word \<in> set [''insurance'', ''copay'', ''coverage'']
                then bump e2 1 2 else e2)
      in (if word \<in> set [''appointment'', ''schedule'', ''time'']
          then bump e3 2 2 else e3))"

definition raw_embedding :: "(string \<Rightarrow> int) \<Rightarrow> string list \<Rightarrow> real list" where
  "raw_embedding h ws = foldl (embed_word h) (replicate 384 0) (enumerate 0 (take 20 ws))"

definition l2_norm :: "real list \<Rightarrow> real" where
  "l2_norm v = sqrt (sum_list (map (\<lambda>x. x * x) v))"

definition normalize :: "real list \<Rightarrow> real list" where
  "normalize embedding =
     (let norm = l2_norm embedding
      in if norm > 0 then map (\<lambda>x. x / norm) embedding else embedding)"

definition simple_embedding :: "(string \<Rightarrow> int) \<Rightarrow> string \<Rightarrow> real list" where
  "simple_embedding h text = normalize (raw_embedding h (py_split (py_lower text)))"

definition create_embeddings ::
  "(string \<Rightarrow> int) \<Rightarrow> HealthcareVectorDB \<Rightarrow> string list \<Rightarrow> real list list" where
  "create_embeddings h db texts =
     (if use_custom_embeddings db then map (simple_embedding h) texts
      else (case embedding_model db of
              Some encode \<Rightarrow> encode texts
            | None \<Rightarrow> map (simple_embedding h) texts))"

subsection \<open>Ingest\<close>

text \<open>The id \<open>f"{doc.source}_{i}"\<close> of the pair \<open>(i, doc)\<close> of \<open>enumerate(documents)\<close>.\<close>

definition doc_id :: "nat \<times> Document \<Rightarrow> string" where
  "doc_id idoc = source (snd idoc) @ ''_'' @ str_nat (fst idoc)"

text \<open>The list \<open>ids\<close> that the loop of \<open>add_documents\<close> builds.\<close>

definition document_ids :: "Document list \<Rightarrow> string list" where
  "document_ids documents = map doc_id (enumerate 0 documents)"

text \<open>
  \<open>collection.add(ids, documents, metadatas, embeddings)\<close> belongs to the store library
  and is a parameter: from the collection and the four lists to the collection after the
  call and the exception the call raised, if any. \<open>add_documents\<close> returns at once on an
  empty list; otherwise it hands its four lists to \<open>collection.add\<close> and raises again what
  that call raises. Its result is the store after the call and the exception raised, if any.
\<close>

type_synonym store_add =
  "indexed_record list \<Rightarrow> string list \<Rightarrow> string list \<Rightarrow> pydict list \<Rightarrow> real list list
     \<Rightarrow> indexed_record list \<times> py_exception option"

definition add_documents ::
  "(string \<Rightarrow> int) \<Rightarrow> store_add \<Rightarrow> HealthcareVectorDB \<Rightarrow> Document list
     \<Rightarrow> HealthcareVectorDB \<times> py_exception option" where
  "add_documents h add db documents =
     (if documents = [] then (db, None)
      else
        (let ids = document_ids documents;
             documents_text = map content documents;
             metadatas = map metadata documents;
             embeddings = create_embeddings h db documents_text;
             added = add (collection db) ids documents_text metadatas embeddings
         in (db\<lparr>collection := fst added\<rparr>, snd added)))"

text \<open>\<open>get_collection_stats()["total_documents"]\<close>, the count of the collection.\<close>

definition total_documents :: "HealthcareVectorDB \<Rightarrow> nat" where
  "total_documents db = length (collection db)"

definition reset_database :: "HealthcareVectorDB \<Rightarrow> HealthcareVectorDB" where
  "reset_database db = db\<lparr>collection := []\<rparr>"

text \<open>
  \<open>setup_vector_database\<close>: \<open>db\<close> is the store object as the constructor opens it on the
  persisted collection, \<open>corpus\<close> is what \<open>process_all_data\<close> would read from the data
  directory. The result is the store after the call, the trace of the calls made on the
  way, and the exception raised, if any.
\<close>

datatype setup_call = Reset_database | Process_all_data | Add_documents

definition setup_vector_database ::
  "(string \<Rightarrow> int) \<Rightarrow> store_add \<Rightarrow> Document list \<Rightarrow> HealthcareVectorDB \<Rightarrow> bool
     \<Rightarrow> HealthcareVectorDB \<times> setup_call list \<times> py_exception option" where
  "setup_vector_database h add corpus db reset =
     (let opened = (if reset then reset_database db else db);
          calls = (if reset then [Reset_database] else [])
      in if total_documents opened > 0 then (opened, calls, None)
         else if corpus = [] then (opened, calls @ [Process_all_data], None)
         else (fst (add_documents h add opened corpus),
               calls @ [Process_all_data, Add_documents],
               snd (add_documents h add opened corpus)))"

text \<open>The index a document has among the documents of its own source.\<close>

definition index_within_source :: "Document list \<Rightarrow> nat \<Rightarrow> nat" where
  "index_within_source documents i =
     length (filter (\<lambda>d. source d = source (documents ! i)) (take i documents))"


section \<open>Retrieval and response composition (\<open>rag_pipeline.py\<close>)\<close>

subsection \<open>\<open>HealthcareVectorDB.search\<close>\<close>

text \<open>
  The answer of the embedded store's nearest-neighbour query: one list of documents,
  metadata and distances per query embedding. The query itself belongs to the store
  library and is the parameter \<open>knn\<close>: collection, query embedding, number of results
  and optional metadata filter.
\<close>

record query_result =
  qr_documents :: "string list list"
  qr_metadatas :: "pydict list list"
  qr_distances :: "real list list"

type_synonym knn_query =
  "indexed_record list \<Rightarrow> real list \<Rightarrow> nat \<Rightarrow> pydict option \<Rightarrow> query_result"

definition search ::
  "(string \<Rightarrow> int) \<Rightarrow> knn_query \<Rightarrow> HealthcareVectorDB \<Rightarrow> string \<Rightarrow> nat \<Rightarrow> pydict option
     \<Rightarrow> py_exception + query_result" where
  "search h knn db query n_results filter_metadata =
     (case create_embeddings h db [query] of
        [] \<Rightarrow> Inl IndexError
      | query_embedding # _ \<Rightarrow> Inr (knn (collection db) query_embedding n_results filter_metadata))"

subsection \<open>The pipeline object\<close>

text \<open>
  \<open>llm\<close> is the optional generative collaborator: from the system prompt and the human
  message to the content of its reply, \<open>None\<close> when the call raises. \<open>schema_available\<close>
  says that the message classes were imported.
\<close>

record HealthcareRAGPipeline =
  vector_db :: HealthcareVectorDB
  use_advanced_llm :: bool
  schema_available :: bool
  llm :: "string \<Rightarrow> string \<Rightarrow> string option"

record context_doc =
  doc_content :: string
  doc_metadata :: pydict
  doc_distance :: real

record source_info =
  src_type :: pyval
  content_preview :: string
  relevance_score :: real

record RAGResponse =
  answer :: string
  sources :: "source_info list"
  confidence :: real
  triage_info :: "pydict option"
  next_steps :: "string list option"

definition system_prompt :: string where
  "system_prompt =
      ''You are a helpful healthcare pre-visit assistant for SuperHealth Medical '' @
      ''Center. \<newline>'' @
      ''Your role is to help patients prepare for their visits by providing '' @
      ''information about:\<newline>'' @
      ''- Department recommendations based on symptoms\<newline>'' @
      ''- Insurance coverage and copays\<newline>'' @
      ''- Required documents and preparation\<newline>'' @
      ''- Wait times and scheduling\<newline>'' @
      ''- Hospital policies and procedures\<newline>'' @
      ''\<newline>'' @
      ''IMPORTANT GUIDELINES:\<newline>'' @
      ''1. Always include a medical disclaimer: '' @
      [CHR 0x22] @
      ''This is not medical advice. Please consult a qualified healthcare '' @
      ''provider.'' @
      [CHR 0x22] @
      ''\<newline>'' @
      ''2. For emergency symptoms, always recommend immediate emergency care '' @
      ''or calling 911\<newline>'' @
      ''3. Be empathetic and helpful while staying within your role\<newline>'' @
      ''4. Provide specific, actionable information when possible\<newline>'' @
      ''5. If you don't know something, say so and suggest contacting the '' @
      ''hospital directly\<newline>'' @
      ''\<newline>'' @
      ''Use the provided context to answer questions accurately and helpfully.''"

subsection \<open>Sequencing of calls that can raise\<close>

definition py_nth :: "'a list \<Rightarrow> nat \<Rightarrow> py_exception + 'a" where
  "py_nth xs i = (if i < length xs then Inr (xs ! i) else Inl IndexError)"

fun collect :: "('a \<Rightarrow> py_exception + 'b) \<Rightarrow> 'a list \<Rightarrow> py_exception + 'b list" where
  "collect f [] = Inr []"
| "collect f (x # xs) =
     (case f x of
        Inl e \<Rightarrow> Inl e
      | Inr y \<Rightarrow> (case collect f xs of Inl e \<Rightarrow> Inl e | Inr ys \<Rightarrow> Inr (y # ys)))"

subsection \<open>\<open>retrieve_context\<close>\<close>

definition context_entry :: "query_result \<Rightarrow> nat \<times> string \<Rightarrow> py_exception + context_doc" where
  "context_entry results idoc =
     (case py_nth (qr_metadatas results) 0 of
        Inl e \<Rightarrow> Inl e
      | Inr ms \<Rightarrow>
     (case py_nth ms (fst idoc) of
        Inl e \<Rightarrow> Inl e
      | Inr m \<Rightarrow>
     (case py_nth (qr_distances results) 0 of
        Inl e \<Rightarrow> Inl e
      | Inr ds \<Rightarrow>
     (case py_nth ds (fst idoc) of
        Inl e \<Rightarrow> Inl e
      | Inr d \<Rightarrow> Inr \<lparr>doc_content = snd idoc, doc_metadata = m, doc_distance = d\<rparr>))))"

definition retrieve_context ::
  "(string \<Rightarrow> int) \<Rightarrow> knn_query \<Rightarrow> HealthcareRAGPipeline \<Rightarrow> string \<Rightarrow> nat
     \<Rightarrow> py_exception + context_doc list" where
  "retrieve_context h knn p query max_results =
     (case search h knn (vector_db p) query max_results None of
        Inl e \<Rightarrow> Inl e
      | Inr results \<Rightarrow>
          (case qr_documents results of
             [] \<Rightarrow> Inr []
           | first # _ \<Rightarrow> collect (context_entry results) (enumerate 0 first)))"

subsection \<open>\<open>format_context\<close> and \<open>extract_triage_info\<close>\<close>

definition format_doc :: "context_doc \<Rightarrow> string" where
  "format_doc doc =
     (let source_type = dict_get (doc_metadata doc) ''type'' (PyStr ''unknown'')
      in if source_type = PyStr ''triage'' then ''TRIAGE INFO: '' @ doc_content doc
         else if source_type = PyStr ''department'' then ''DEPARTMENT INFO: '' @ doc_content doc
         else if source_type = PyStr ''insurance'' then ''INSURANCE INFO: '' @ doc_content doc
         else if source_type = PyStr ''faq'' then ''FAQ: '' @ doc_content doc
         else if source_type = PyStr ''hospital_info'' then ''HOSPITAL INFO: '' @ doc_content doc
         else doc_content doc)"

definition format_context :: "context_doc list \<Rightarrow> string" where
  "format_context context_docs =
     (if context_docs = [] then ''No relevant information found in the knowledge base.''
      else py_join ''\<newline>\<newline>'' (map format_doc context_docs))"

fun extract_triage_info :: "context_doc list \<Rightarrow> pydict option" where
  "extract_triage_info [] = None"
| "extract_triage_info (doc # docs) =
     (if dict_get (doc_metadata doc) ''type'' PyNone = PyStr ''triage''
      then Some [(''urgency_level'', dict_get (doc_metadata doc) ''urgency_level'' PyNone),
                 (''department'', dict_get (doc_metadata doc) ''department'' PyNone),
                 (''priority'', dict_get (doc_metadata doc) ''priority'' PyNone),
                 (''symptoms'', dict_get (doc_metadata doc) ''symptoms'' PyNone),
                 (''warning_signs'', dict_get (doc_metadata doc) ''warning_signs'' PyNone)]
      else extract_triage_info docs)"

subsection \<open>Answer composition\<close>

definition generate_simple_response :: "string \<Rightarrow> string \<Rightarrow> string" where
  "generate_simple_response query context =
     (let query_lower = py_lower query
      in if \<exists>keyword \<in> set [''severe'', ''emergency'', ''urgent'', ''chest pain'',
                               ''difficulty breathing'', ''unconscious'']. py_in keyword query_lower
         then
      [CHR 0xC3, CHR 0xB0, CHR 0xC5, CHR 0xB8, CHR 0xC5, CHR 0xA1, CHR 0xC2, CHR 0xA8] @
      '' IMPORTANT: Based on your symptoms, you may need immediate medical '' @
      ''attention. \<newline>'' @
      ''            \<newline>'' @
      ''If you're experiencing severe symptoms, please:\<newline>'' @
      ''- Call 911 for emergency care\<newline>'' @
      ''- Go to the nearest emergency room\<newline>'' @
      ''- Don't wait for an appointment\<newline>'' @
      ''\<newline>'' @
      ''For urgent but non-emergency symptoms, visit our Urgent Care department.\<newline>'' @
      ''\<newline>'' @
      ''DISCLAIMER: This is not medical advice. Please consult a qualified '' @
      ''healthcare provider for proper medical evaluation.''
         else if py_in ''insurance'' query_lower \<or> py_in ''copay'' query_lower
                 \<or> py_in ''coverage'' query_lower
         then
      ''Based on our records:\<newline>'' @
      ''\<newline>'' @
      context @
      ''\<newline>'' @
      ''\<newline>'' @
      [CHR 0xC3, CHR 0xA2, CHR 0xC5, CHR 0x93, CHR 0xE2, CHR 0x80, CHR 0xA6] @
      '' We accept most major insurance plans\<newline>'' @
      [CHR 0xC3, CHR 0xB0, CHR 0xC5, CHR 0xB8, CHR 0xE2, CHR 0x80, CHR 0x99, CHR 0xC2, CHR 0xB0] @
      '' Copays vary by plan and service type\<newline>'' @
      [CHR 0xC3, CHR 0xB0, CHR 0xC5, CHR 0xB8, CHR 0xE2, CHR 0x80, CHR 0x9C, CHR 0xC5, CHR 0xBE] @
      '' Please call to verify your specific plan coverage\<newline>'' @
      ''\<newline>'' @
      ''DISCLAIMER: This is not medical advice. Please consult a qualified '' @
      ''healthcare provider.''
         else if py_in ''appointment'' query_lower \<or> py_in ''visit'' query_lower
                 \<or> py_in ''documents'' query_lower
         then
      ''Here's what you need to know:\<newline>'' @
      ''\<newline>'' @
      context @
      ''\<newline>'' @
      ''\<newline>'' @
      [CHR 0xC3, CHR 0xB0, CHR 0xC5, CHR 0xB8, CHR 0xE2, CHR 0x80, CHR 0x9C, CHR 0xE2, CHR 0x80, CHR 0xB9] @
      '' Required documents: Photo ID, insurance card, medication list\<newline>'' @
      [CHR 0xC3, CHR 0xA2, CHR 0xC2, CHR 0xB0] @
      '' Arrive 15-30 minutes early for check-in\<newline>'' @
      [CHR 0xC3, CHR 0xB0, CHR 0xC5, CHR 0xB8, CHR 0xE2, CHR 0x80, CHR 0x9C, CHR 0xC5, CHR 0xBE] @
      '' Call ahead to confirm appointment and requirements\<newline>'' @
      ''\<newline>'' @
      ''DISCLAIMER: This is not medical advice. Please consult a qualified '' @
      ''healthcare provider.''
         else
      ''Based on our hospital information:\<newline>'' @
      ''\<newline>'' @
      context @
      ''\<newline>'' @
      ''\<newline>'' @
      ''For specific medical questions or to schedule appointments, please '' @
      ''contact SuperHealth Medical Center directly at (555) 123-HEALTH.\<newline>'' @
      ''\<newline>'' @
      ''DISCLAIMER: This is not medical advice. Please consult a qualified '' @
      ''healthcare provider.'')"

definition human_message :: "string \<Rightarrow> string \<Rightarrow> string" where
  "human_message query context =
      ''Context from hospital knowledge base:\<newline>'' @
      context @
      ''\<newline>'' @
      ''\<newline>'' @
      ''Patient Question: '' @
      query @
      ''\<newline>'' @
      ''\<newline>'' @
      ''Please provide a helpful, accurate response based on the context. '' @
      ''Include specific recommendations and next steps when appropriate.''"

definition generate_advanced_response :: "HealthcareRAGPipeline \<Rightarrow> string \<Rightarrow> string \<Rightarrow> string" where
  "generate_advanced_response p query context =
     (if \<not> use_advanced_llm p then generate_simple_response query context
      else if schema_available p
      then (case llm p system_prompt (human_message query context) of
              Some reply \<Rightarrow> reply
            | None \<Rightarrow> generate_simple_response query context)
      else generate_simple_response query context)"

subsection \<open>\<open>generate_next_steps\<close>\<close>

text \<open>Truth value of an optional dictionary, as \<open>if triage_info:\<close> takes it.\<close>

definition truthy_dict :: "pydict option \<Rightarrow> bool" where
  "truthy_dict d = (case d of None \<Rightarrow> False | Some kv \<Rightarrow> kv \<noteq> [])"

definition the_dict :: "pydict option \<Rightarrow> pydict" where
  "the_dict d = (case d of None \<Rightarrow> [] | Some kv \<Rightarrow> kv)"

text \<open>\<open>v.upper()\<close> and \<open>v.lower()\<close> on a scalar that need not be a string.\<close>

definition pyval_upper :: "pyval \<Rightarrow> py_exception + string" where
  "pyval_upper v = (case v of PyStr s \<Rightarrow> Inr (py_upper s) | _ \<Rightarrow> Inl AttributeError)"

definition pyval_lower :: "pyval \<Rightarrow> py_exception + string" where
  "pyval_lower v = (case v of PyStr s \<Rightarrow> Inr (py_lower s) | _ \<Rightarrow> Inl AttributeError)"

definition general_steps :: "string list" where
  "general_steps =
     [[CHR 0xC3, CHR 0xB0, CHR 0xC5, CHR 0xB8, CHR 0xE2, CHR 0x80, CHR 0x9C, CHR 0xC5, CHR 0xBE] @
         '' Contact hospital for specific guidance'',
      ''Prepare required documents (ID, insurance card)'',
      ''Review hospital policies and procedures'',
      ''Plan arrival time based on appointment type'']"

definition generate_next_steps :: "pydict option \<Rightarrow> string \<Rightarrow> py_exception + string list" where
  "generate_next_steps tinfo query =
     (if truthy_dict tinfo
      then (case pyval_upper (dict_get (the_dict tinfo) ''urgency_level'' (PyStr '''')) of
              Inl e \<Rightarrow> Inl e
            | Inr urgency \<Rightarrow>
               (let department =
                      str_pyval (dict_get (the_dict tinfo) ''department'' (PyStr ''''))
                in if urgency = ''EMERGENCY'' then Inr
     [[CHR 0xC3, CHR 0xB0, CHR 0xC5, CHR 0xB8, CHR 0xC5, CHR 0xA1, CHR 0xC2, CHR 0xA8] @
         '' Seek immediate emergency care or call 911'',
      ''Go to the nearest emergency room'',
      ''Bring valid ID and insurance card'',
      ''Don't drive yourself if experiencing severe symptoms'']
                   else if urgency = ''URGENT'' then Inr
     [[CHR 0xC3, CHR 0xB0, CHR 0xC5, CHR 0xB8, CHR 0xE2, CHR 0x80, CHR 0x9C, CHR 0xC5, CHR 0xBE] @
         '' Schedule same-day appointment with '' @
         department,
      ''Consider urgent care if department unavailable'',
      ''Prepare symptom timeline and current medications'',
      ''Arrive 15-30 minutes early for check-in'']
                   else if urgency = ''ROUTINE'' then Inr
     [[CHR 0xC3, CHR 0xB0, CHR 0xC5, CHR 0xB8, CHR 0xE2, CHR 0x80, CHR 0x9C, CHR 0xE2, CHR 0x80, CHR 0xA6] @
         '' Schedule appointment with '' @
         department,
      ''Gather medical history and current medications'',
      ''Prepare list of questions for provider'',
      ''Verify insurance coverage and copay'']
                   else Inr general_steps))
      else Inr general_steps)"

subsection \<open>\<open>calculate_confidence\<close>\<close>

text \<open>
  The distances are doubles; the operations on them round as doubles do. The literal \<open>0.1\<close>
  that \<open>max\<close> compares with and the literal \<open>0.2\<close> that is added are the doubles nearest to
  these decimals.
\<close>

definition calculate_confidence :: "context_doc list \<Rightarrow> string \<Rightarrow> real" where
  "calculate_confidence context_docs query =
     (if context_docs = [] then 1 / 10
      else
        (let dists = map doc_distance context_docs;
             avg_distance = fdiv (float_sum dists) (real (length dists));
             base_confidence = max (fl (1 / 10)) (fsub 1 avg_distance);
             query_lower = py_lower query;
             base_confidence =
               (if \<exists>doc \<in> set context_docs. py_in query_lower (py_lower (doc_content doc))
                then min 1 (fadd base_confidence (fl (2 / 10))) else base_confidence)
         in py_round2 base_confidence))"

subsection \<open>\<open>process_query\<close>\<close>

definition source_of :: "context_doc \<Rightarrow> source_info" where
  "source_of doc =
     \<lparr>src_type = dict_get (doc_metadata doc) ''type'' (PyStr ''unknown''),
      content_preview =
        (if length (doc_content doc) > 200 then take 200 (doc_content doc) @ ''...''
         else doc_content doc),
      relevance_score = py_round2 (fsub 1 (doc_distance doc))\<rparr>"

definition fallback_response :: RAGResponse where
  "fallback_response =
     \<lparr>answer =
      ''I don't have specific information about that topic in our knowledge '' @
      ''base. Please contact SuperHealth Medical Center directly at (555) '' @
      ''123-HEALTH for assistance.'',
      sources = [],
      confidence = 1 / 10,
      triage_info = None,
      next_steps = Some
     [[CHR 0xC3, CHR 0xB0, CHR 0xC5, CHR 0xB8, CHR 0xE2, CHR 0x80, CHR 0x9C, CHR 0xC5, CHR 0xBE] @
         '' Contact hospital directly for assistance'']\<rparr>"

definition process_query ::
  "(string \<Rightarrow> int) \<Rightarrow> knn_query \<Rightarrow> HealthcareRAGPipeline \<Rightarrow> string
     \<Rightarrow> py_exception + RAGResponse" where
  "process_query h knn p query =
     (case retrieve_context h knn p query 5 of
        Inl e \<Rightarrow> Inl e
      | Inr context_docs \<Rightarrow>
          if context_docs = [] then Inr fallback_response
          else
            (let context = format_context context_docs;
                 triage = extract_triage_info context_docs;
                 reply = (if use_advanced_llm p
                          then generate_advanced_response p query context
                          else generate_simple_response query context)
             in case generate_next_steps triage query of
                  Inl e \<Rightarrow> Inl e
                | Inr steps \<Rightarrow>
                    Inr \<lparr>answer = reply,
                         sources = map source_of context_docs,
                         confidence = calculate_confidence context_docs query,
                         triage_info = triage,
                         next_steps = Some steps\<rparr>))"





section \<open>Patient intake and triage (\<open>patient_intake.py\<close>)\<close>

text \<open>
  Methods of the source whose names begin with an underscore carry the same names here
  without it.
\<close>

record PatientInfo =
  age :: "int option"
  gender :: "string option"
  chief_complaint :: "string option"
  symptoms :: "string list"
  symptom_duration :: "string option"
  symptom_severity :: "int option"
  pain_location :: "string option"
  medical_history :: "string list"
  current_medications :: "string list"
  allergies :: "string list"
  insurance_provider :: "string option"
  insurance_member_id :: "string option"
  phone_number :: "string option"
  email :: "string option"
  preferred_time :: "string option"
  urgency_perception :: "string option"
  session_id :: string
  timestamp :: string

record TriageRecommendation =
  urgency_level :: pyval
  recommended_department :: pyval
  estimated_wait_time :: pyval
  priority_score :: pyval
  tr_next_steps :: "string list"
  required_documents :: "string list"
  preparation_instructions :: "string list"
  recommended_time_slots :: "string list"
  alternative_options :: "string list"
  insurance_coverage :: pydict
  estimated_cost :: pyval
  warning_signs :: "string list"
  medical_disclaimer :: string

record VisitPlan =
  patient_info :: PatientInfo
  triage_recommendation :: TriageRecommendation
  check_in_time :: string
  estimated_total_time :: string
  parking_info :: string
  directions :: string
  follow_up_needed :: bool
  specialist_referral :: "string option"
  visit_summary :: string
  confidence_score :: real

text \<open>
  What the calls of \<open>datetime.now()\<close> give, already formatted: the session id
  (\<open>%Y%m%d_%H%M%S\<close>), the ISO timestamp, and the time two hours later
  (\<open>%I:%M %p today\<close>).
\<close>

record clock =
  now_session_id :: string
  now_isoformat :: string
  in_two_hours :: string

record PatientIntakeSystem =
  rag_pipeline :: HealthcareRAGPipeline
  current_patient :: "PatientInfo option"

definition severity_mappings :: "(string \<times> int) list" where
  "severity_mappings = [(''mild'', 1), (''moderate'', 5), (''severe'', 9), (''unbearable'', 10)]"

definition emergency_keywords :: "string list" where
  "emergency_keywords =
     [''chest pain'', ''difficulty breathing'', ''unconscious'', ''bleeding heavily'',
      ''severe injury'', ''overdose'', ''suicide'', ''heart attack'', ''stroke'',
      ''allergic reaction'', ''severe burn'', ''broken bone'', ''head injury'']"

definition time_slots :: "(string \<times> string list) list" where
  "time_slots =
     [(''emergency'', [''immediately'', ''ASAP'']),
      (''urgent'', [''within 2 hours'', ''today if possible'', ''this evening'']),
      (''routine'', [''within 1-2 weeks'', ''next available appointment'', ''at your convenience''])]"

subsection \<open>Session and collection calls\<close>

definition new_patient :: "clock \<Rightarrow> PatientInfo" where
  "new_patient clk =
     \<lparr>age = None, gender = None, chief_complaint = None, symptoms = [],
      symptom_duration = None, symptom_severity = None, pain_location = None,
      medical_history = [], current_medications = [], allergies = [],
      insurance_provider = None, insurance_member_id = None, phone_number = None,
      email = None, preferred_time = None, urgency_perception = None,
      session_id = now_session_id clk, timestamp = now_isoformat clk\<rparr>"

definition new_system :: "HealthcareRAGPipeline \<Rightarrow> PatientIntakeSystem" where
  "new_system p = \<lparr>rag_pipeline = p, current_patient = None\<rparr>"

definition start_new_intake :: "clock \<Rightarrow> PatientIntakeSystem \<Rightarrow> PatientIntakeSystem" where
  "start_new_intake clk s = s\<lparr>current_patient := Some (new_patient clk)\<rparr>"

definition collect_basic_info ::
  "clock \<Rightarrow> PatientIntakeSystem \<Rightarrow> int \<Rightarrow> string \<Rightarrow> PatientIntakeSystem" where
  "collect_basic_info clk s a g =
     (let s1 = (if current_patient s = None then start_new_intake clk s else s)
      in case current_patient s1 of
           None \<Rightarrow> s1
         | Some patient \<Rightarrow>
             s1\<lparr>current_patient := Some (patient\<lparr>age := Some a, gender := Some (py_lower g)\<rparr>)\<rparr>)"

text \<open>The conversion of the severity argument at the end of \<open>collect_symptoms\<close>.\<close>

definition severity_score :: "string \<Rightarrow> int" where
  "severity_score severity =
     (case map_of severity_mappings (py_lower severity) of
        Some n \<Rightarrow> n
      | None \<Rightarrow> (case py_int severity of Some n \<Rightarrow> n | None \<Rightarrow> 5))"

definition collect_symptoms ::
  "PatientIntakeSystem \<Rightarrow> string \<Rightarrow> string list \<Rightarrow> string \<Rightarrow> string \<Rightarrow> string option
     \<Rightarrow> py_exception + PatientIntakeSystem" where
  "collect_symptoms s complaint syms duration severity location =
     (case current_patient s of
        None \<Rightarrow> Inl (ValueError ''Must start intake session first'')
      | Some patient \<Rightarrow>
          Inr (s\<lparr>current_patient := Some (patient
                 \<lparr>chief_complaint := Some complaint,
                  symptoms := syms,
                  symptom_duration := Some duration,
                  pain_location := location,
                  symptom_severity := Some (severity_score severity)\<rparr>)\<rparr>))"

definition collect_medical_history ::
  "PatientIntakeSystem \<Rightarrow> string list \<Rightarrow> string list \<Rightarrow> string list
     \<Rightarrow> py_exception + PatientIntakeSystem" where
  "collect_medical_history s history medications allergy_list =
     (case current_patient s of
        None \<Rightarrow> Inl (ValueError ''Must start intake session first'')
      | Some patient \<Rightarrow>
          Inr (s\<lparr>current_patient := Some (patient
                 \<lparr>medical_history := history,
                  current_medications := medications,
                  allergies := allergy_list\<rparr>)\<rparr>))"

definition collect_insurance_info ::
  "PatientIntakeSystem \<Rightarrow> string \<Rightarrow> string option \<Rightarrow> py_exception + PatientIntakeSystem" where
  "collect_insurance_info s provider member_id =
     (case current_patient s of
        None \<Rightarrow> Inl (ValueError ''Must start intake session first'')
      | Some patient \<Rightarrow>
          Inr (s\<lparr>current_patient := Some (patient
                 \<lparr>insurance_provider := Some provider,
                  insurance_member_id := member_id\<rparr>)\<rparr>))"

definition collect_contact_info ::
  "PatientIntakeSystem \<Rightarrow> string \<Rightarrow> string option \<Rightarrow> py_exception + PatientIntakeSystem" where
  "collect_contact_info s phone mail =
     (case current_patient s of
        None \<Rightarrow> Inl (ValueError ''Must start intake session first'')
      | Some patient \<Rightarrow>
          Inr (s\<lparr>current_patient := Some (patient
                 \<lparr>phone_number := Some phone, email := mail\<rparr>)\<rparr>))"

definition collect_preferences ::
  "PatientIntakeSystem \<Rightarrow> string \<Rightarrow> string \<Rightarrow> py_exception + PatientIntakeSystem" where
  "collect_preferences s time perception =
     (case current_patient s of
        None \<Rightarrow> Inl (ValueError ''Must start intake session first'')
      | Some patient \<Rightarrow>
          Inr (s\<lparr>current_patient := Some (patient
                 \<lparr>preferred_time := Some time, urgency_perception := Some perception\<rparr>)\<rparr>))"

subsection \<open>Emergency indicators\<close>

text \<open>
  \<open>check_emergency_indicators\<close> appends its flags in three groups: one flag per emergency
  keyword found in the text, the severity flag, and the flags of the two age rules.
\<close>

text \<open>\<open>x or ""\<close> and the truth value of an optional string.\<close>

definition or_empty :: "string option \<Rightarrow> string" where
  "or_empty x = (case x of None \<Rightarrow> [] | Some t \<Rightarrow> t)"

definition truthy_str :: "string option \<Rightarrow> bool" where
  "truthy_str x = (case x of None \<Rightarrow> False | Some t \<Rightarrow> t \<noteq> [])"

definition symptoms_text :: "PatientInfo \<Rightarrow> string" where
  "symptoms_text patient =
     py_lower (py_join '' '' (or_empty (chief_complaint patient) # symptoms patient))"

definition keyword_flags :: "PatientInfo \<Rightarrow> string list" where
  "keyword_flags patient =
     map (\<lambda>keyword. (''Emergency keyword detected: '' @ keyword))
       (filter (\<lambda>keyword. py_in keyword (symptoms_text patient)) emergency_keywords)"

definition severity_flags :: "PatientInfo \<Rightarrow> string list" where
  "severity_flags patient =
     (case symptom_severity patient of
        None \<Rightarrow> []
      | Some n \<Rightarrow> if n \<noteq> 0 \<and> n \<ge> 8 then [(''High severity score: '' @ str_int n @ ''/10'')] else [])"

definition age_flags :: "PatientInfo \<Rightarrow> string list" where
  "age_flags patient =
     (case age patient of
        None \<Rightarrow> []
      | Some a \<Rightarrow>
          if a \<noteq> 0
          then (if a \<ge> 65 \<and> py_in ''chest pain'' (symptoms_text patient) then [''Chest pain in elderly patient''] else [])
             @ (if a < 5 \<and> py_in ''fever'' (symptoms_text patient) then [''Fever in young child''] else [])
          else [])"

definition emergency_flags :: "PatientInfo \<Rightarrow> string list" where
  "emergency_flags patient = keyword_flags patient @ severity_flags patient @ age_flags patient"

definition check_emergency_indicators :: "PatientIntakeSystem \<Rightarrow> bool \<times> string list" where
  "check_emergency_indicators s =
     (case current_patient s of
        None \<Rightarrow> (False, [])
      | Some patient \<Rightarrow> (length (emergency_flags patient) > 0, emergency_flags patient))"

subsection \<open>Calls into the pipeline\<close>

text \<open>
  Every call of \<open>process_query\<close> made by the intake system goes through \<open>ask\<close>, which
  returns the query along with the answer; the functions below return the list of the
  queries they submitted, in order, beside their result.
\<close>

definition ask ::
  "(string \<Rightarrow> int) \<Rightarrow> knn_query \<Rightarrow> HealthcareRAGPipeline \<Rightarrow> string
     \<Rightarrow> string list \<times> (py_exception + RAGResponse)" where
  "ask h knn p query = ([query], process_query h knn p query)"

text \<open>\<open>s.split(sep)\<close> for a non-empty separator.\<close>

fun split_on_from :: "string \<Rightarrow> nat \<Rightarrow> string \<Rightarrow> string \<Rightarrow> string list" where
  "split_on_from sep skip cur [] = [cur]"
| "split_on_from sep skip cur (c # cs) =
     (if skip > 0 then split_on_from sep (skip - 1) cur cs
      else if startswith (c # cs) sep then cur # split_on_from sep (length sep - 1) [] cs
      else split_on_from sep 0 (cur @ [c]) cs)"

definition split_on :: "string \<Rightarrow> string \<Rightarrow> string list" where
  "split_on sep s = split_on_from sep 0 [] s"

fun dict_set :: "pydict \<Rightarrow> string \<Rightarrow> pyval \<Rightarrow> pydict" where
  "dict_set [] k v = [(k, v)]"
| "dict_set ((k', v') # kvs) k v = (if k' = k then (k, v) # kvs else (k', v') # dict_set kvs k v)"

definition copay_from_source :: "string \<Rightarrow> pydict \<Rightarrow> source_info \<Rightarrow> pydict" where
  "copay_from_source provider insurance_info src =
     (if src_type src = PyStr ''insurance''
         \<and> py_in (py_lower provider) (py_lower (content_preview src))
      then (if py_in ''Emergency Copay:'' (content_preview src)
            then (case py_nth (split_on ''Emergency Copay:'' (content_preview src)) 1 of
                    Inl e \<Rightarrow> insurance_info
                  | Inr rest \<Rightarrow>
                      (case py_nth (split_on ''\<newline>'' rest) 0 of
                         Inl e \<Rightarrow> insurance_info
                       | Inr line \<Rightarrow> dict_set insurance_info ''emergency_copay'' (PyStr (py_strip line))))
            else insurance_info)
      else insurance_info)"

definition get_insurance_info ::
  "(string \<Rightarrow> int) \<Rightarrow> knn_query \<Rightarrow> PatientIntakeSystem \<Rightarrow> string
     \<Rightarrow> string list \<times> (py_exception + pydict)" where
  "get_insurance_info h knn s provider =
     (let query = (''insurance coverage copay '' @ provider);
          asked = ask h knn (rag_pipeline s) query
      in case snd asked of
           Inl e \<Rightarrow> (fst asked, Inl e)
         | Inr response \<Rightarrow>
             (fst asked,
              Inr (foldl (copay_from_source provider)
                     [(''provider'', PyStr provider),
                      (''accepted'', PyBool True),
                      (''emergency_copay'', PyStr ''Contact insurance for details''),
                      (''urgent_care_copay'', PyStr ''Contact insurance for details''),
                      (''specialist_copay'', PyStr ''Contact insurance for details''),
                      (''primary_care_copay'', PyStr ''Contact insurance for details''),
                      (''notes'', PyStr (answer response))]
                     (sources response))))"

subsection \<open>Triage\<close>

definition generate_emergency_recommendation :: "string list \<Rightarrow> TriageRecommendation" where
  "generate_emergency_recommendation flags =
     \<lparr>urgency_level = PyStr ''EMERGENCY'',
      recommended_department = PyStr ''Emergency Department'',
      estimated_wait_time = PyStr ''0-5 minutes'',
      priority_score = PyInt 1,
      tr_next_steps =
        [[CHR 0xC3, CHR 0xB0, CHR 0xC5, CHR 0xB8, CHR 0xC5, CHR 0xA1, CHR 0xC2, CHR 0xA8] @
           '' Seek immediate emergency care'',
         ''Call 911 if symptoms are severe'',
         ''Go to nearest emergency room'',
         ''Do not drive yourself if experiencing severe symptoms''],
      required_documents = [''Photo ID'', ''Insurance card''],
      preparation_instructions =
        [''Bring all current medications'',
         ''Prepare to describe symptoms to medical staff'',
         ''Have emergency contact information ready''],
      recommended_time_slots = [''immediately'', ''ASAP''],
      alternative_options = [''Call 911'', ''Go to nearest emergency room''],
      insurance_coverage = [(''emergency_coverage'', PyStr ''Emergency care typically covered'')],
      estimated_cost = PyStr ''Emergency copay applies'',
      warning_signs = flags,
      medical_disclaimer = ''This is an emergency situation. Seek immediate medical attention.''\<rparr>"

definition build_triage_query :: "PatientInfo \<Rightarrow> string" where
  "build_triage_query patient =
     py_join '' ''
       ((if truthy_str (chief_complaint patient) then [or_empty (chief_complaint patient)] else [])
        @ symptoms patient
        @ (case age patient of
             None \<Rightarrow> []
           | Some a \<Rightarrow> if a \<noteq> 0 then [(''age '' @ str_int a)] else [])
        @ (case symptom_severity patient of
             None \<Rightarrow> []
           | Some n \<Rightarrow>
               if n \<noteq> 0
               then (if n \<ge> 7 then [''severe symptoms''] else if n \<ge> 4 then [''moderate symptoms''] else [])
               else []))"

definition generate_preparation_instructions :: "PatientInfo \<Rightarrow> string list" where
  "generate_preparation_instructions patient =
     [''Arrive 15-30 minutes before your appointment'',
      ''Bring a list of current medications'',
      ''Prepare questions for your healthcare provider'']
     @ (if allergies patient \<noteq> [] then [''Be prepared to discuss your allergies''] else [])
     @ (if medical_history patient \<noteq> [] then [''Bring relevant medical history documents''] else [])"

definition get_recommended_time_slots :: "pyval \<Rightarrow> py_exception + string list" where
  "get_recommended_time_slots urgency =
     (case pyval_lower urgency of
        Inl e \<Rightarrow> Inl e
      | Inr key \<Rightarrow>
          Inr (case map_of time_slots key of
                 Some slots \<Rightarrow> slots
               | None \<Rightarrow> (case map_of time_slots ''routine'' of Some slots \<Rightarrow> slots | None \<Rightarrow> [])))"

definition get_alternative_options :: "pyval \<Rightarrow> string list" where
  "get_alternative_options urgency =
     (if urgency = PyStr ''EMERGENCY'' then [''Emergency Department'', ''Call 911'', ''Urgent Care (if symptoms improve)'']
      else if urgency = PyStr ''URGENT'' then [''Urgent Care'', ''Same-day appointment'', ''Telehealth consultation'']
      else [''Regular appointment'', ''Telehealth consultation'', ''Walk-in clinic''])"

definition get_warning_signs :: "PatientInfo \<Rightarrow> string list" where
  "get_warning_signs patient =
     [''Worsening symptoms'',
      ''New severe symptoms'',
      ''Difficulty breathing'',
      ''Severe pain (8/10 or higher)'']
     @ (if py_in ''chest'' (symptoms_text patient)
        then [''Pain radiating to arm or jaw'',
              ''Sweating with chest pain'',
              ''Nausea with chest pain'']
        else [])
     @ (if py_in ''headache'' (symptoms_text patient)
        then [''Sudden severe headache'',
              ''Headache with stiff neck'',
              ''Headache with vision changes'']
        else [])"

text \<open>
  \<open>routine_recommendation\<close> is the last statement of \<open>generate_triage_recommendation\<close>:
  the recommendation built from the pipeline's response and the insurance information.
\<close>

text \<open>\<open>response.next_steps or []\<close>\<close>

definition or_nil :: "string list option \<Rightarrow> string list" where
  "or_nil x = (case x of None \<Rightarrow> [] | Some xs \<Rightarrow> xs)"

definition routine_recommendation ::
  "PatientInfo \<Rightarrow> RAGResponse \<Rightarrow> pydict \<Rightarrow> py_exception + TriageRecommendation" where
  "routine_recommendation patient response insurance_info =
     (let hint = truthy_dict (triage_info response);
          info = the_dict (triage_info response);
          urgency = (if hint then dict_get info ''urgency_level'' (PyStr ''ROUTINE'') else PyStr ''ROUTINE'')
      in case get_recommended_time_slots urgency of
           Inl e \<Rightarrow> Inl e
         | Inr slots \<Rightarrow>
             Inr \<lparr>urgency_level = urgency,
                  recommended_department =
                    (if hint then dict_get info ''department'' (PyStr ''Internal Medicine'') else PyStr ''Internal Medicine''),
                  estimated_wait_time =
                    (if hint then dict_get info ''estimated_wait'' (PyStr ''15-30 minutes'') else PyStr ''15-30 minutes''),
                  priority_score = (if hint then dict_get info ''priority'' (PyInt 3) else PyInt 3),
                  tr_next_steps = or_nil (next_steps response),
                  required_documents = [''Photo ID'', ''Insurance card'', ''Medication list''],
                  preparation_instructions = generate_preparation_instructions patient,
                  recommended_time_slots = slots,
                  alternative_options = get_alternative_options urgency,
                  insurance_coverage = insurance_info,
                  estimated_cost = dict_get insurance_info ''primary_care_copay'' (PyStr ''Contact insurance for estimate''),
                  warning_signs = get_warning_signs patient,
                  medical_disclaimer =
      ''This is not medical advice. Please consult a qualified healthcare '' @
        ''provider for proper medical evaluation and treatment.''\<rparr>)"

definition generate_triage_recommendation ::
  "(string \<Rightarrow> int) \<Rightarrow> knn_query \<Rightarrow> PatientIntakeSystem
     \<Rightarrow> string list \<times> (py_exception + TriageRecommendation)" where
  "generate_triage_recommendation h knn s =
     (case current_patient s of
        None \<Rightarrow> ([], Inl (ValueError ''No patient information available''))
      | Some patient \<Rightarrow>
          if fst (check_emergency_indicators s)
          then ([], Inr (generate_emergency_recommendation (snd (check_emergency_indicators s))))
          else
            (let asked = ask h knn (rag_pipeline s) (build_triage_query patient)
             in case snd asked of
                  Inl e \<Rightarrow> (fst asked, Inl e)
                | Inr response \<Rightarrow>
                    (let insured =
                           (if truthy_str (insurance_provider patient)
                            then get_insurance_info h knn s (or_empty (insurance_provider patient))
                            else ([], Inr []))
                     in case snd insured of
                          Inl e \<Rightarrow> (fst asked @ fst insured, Inl e)
                        | Inr insurance_info \<Rightarrow>
                            (fst asked @ fst insured,
                             routine_recommendation patient response insurance_info))))"

subsection \<open>Visit plan\<close>

definition str_opt :: "string option \<Rightarrow> string" where
  "str_opt x = (case x of None \<Rightarrow> ''None'' | Some t \<Rightarrow> t)"

definition str_opt_int :: "int option \<Rightarrow> string" where
  "str_opt_int x = (case x of None \<Rightarrow> ''None'' | Some i \<Rightarrow> str_int i)"

definition generate_visit_summary :: "PatientInfo \<Rightarrow> TriageRecommendation \<Rightarrow> string" where
  "generate_visit_summary patient triage_rec =
     py_join '' | ''
       ([''Patient: '' @
           str_opt_int (age patient) @
           ''-year-old '' @
           str_opt (gender patient),
         (''Chief complaint: '' @ str_opt (chief_complaint patient)),
         ''Recommended: '' @
           str_pyval (recommended_department triage_rec),
         (''Urgency: '' @ str_pyval (urgency_level triage_rec)),
         ''Estimated wait: '' @
           str_pyval (estimated_wait_time triage_rec)]
        @ (if truthy_str (insurance_provider patient)
           then [(''Insurance: '' @ str_opt (insurance_provider patient))]
           else []))"

definition generate_visit_plan ::
  "clock \<Rightarrow> (string \<Rightarrow> int) \<Rightarrow> knn_query \<Rightarrow> PatientIntakeSystem
     \<Rightarrow> string list \<times> (py_exception + VisitPlan)" where
  "generate_visit_plan clk h knn s =
     (case current_patient s of
        None \<Rightarrow> ([], Inl (ValueError ''No patient information available''))
      | Some patient \<Rightarrow>
          (let triaged = generate_triage_recommendation h knn s
           in case snd triaged of
                Inl e \<Rightarrow> (fst triaged, Inl e)
              | Inr triage_rec \<Rightarrow>
                  (fst triaged,
                   Inr \<lparr>patient_info = patient,
                        triage_recommendation = triage_rec,
                        check_in_time =
                          (if urgency_level triage_rec = PyStr ''EMERGENCY'' then ''Immediately''
                           else if urgency_level triage_rec = PyStr ''URGENT'' then in_two_hours clk
                           else ''Next available appointment''),
                        estimated_total_time =
                          (if urgency_level triage_rec = PyStr ''EMERGENCY'' then ''2-4 hours''
                           else if urgency_level triage_rec = PyStr ''URGENT'' then ''1-2 hours''
                           else ''1 hour''),
                        parking_info =
                          ''Free parking available in main lot. Valet service for emergency patients.'',
                        directions =
                          ''Enter through main entrance. Follow signs to appropriate department.'',
                        follow_up_needed =
                          (urgency_level triage_rec \<in> set [PyStr ''URGENT'', PyStr ''ROUTINE'']),
                        specialist_referral = None,
                        visit_summary = generate_visit_summary patient triage_rec,
                        confidence_score = 85 / 100\<rparr>)))"

subsection \<open>The emergency indicators as the specification words them\<close>

text \<open>
  An emergency phrase occurs in the lowercased text of chief complaint and symptoms, or the
  severity is at least 8, or the age is at least 65 with ``chest pain'' in the text, or the
  age is below 5 with ``fever'' in the text.
\<close>

definition spec_emergency_indicator :: "PatientInfo \<Rightarrow> bool" where
  "spec_emergency_indicator patient \<longleftrightarrow>
     (\<exists>keyword \<in> set emergency_keywords. py_in keyword (symptoms_text patient))
     \<or> (case symptom_severity patient of None \<Rightarrow> False | Some n \<Rightarrow> n \<ge> 8)
     \<or> (case age patient of
           None \<Rightarrow> False
         | Some a \<Rightarrow> a \<ge> 65 \<and> py_in ''chest pain'' (symptoms_text patient))
     \<or> (case age patient of
           None \<Rightarrow> False
         | Some a \<Rightarrow> a < 5 \<and> py_in ''fever'' (symptoms_text patient))"

text \<open>The severity a collection call leaves in the patient record.\<close>

definition stored_severity :: "py_exception + PatientIntakeSystem \<Rightarrow> int option" where
  "stored_severity r =
     (case r of
        Inl e \<Rightarrow> None
      | Inr s \<Rightarrow> (case current_patient s of None \<Rightarrow> None | Some patient \<Rightarrow> symptom_severity patient))"

section \<open>Sample data\<close>

text \<open>Concrete values on which the theorems below are instantiated.\<close>

definition sample_hash :: "string \<Rightarrow> int" where
  "sample_hash w = int (length w)"



text \<open>
  A store that takes every batch and appends one record per id, and one that refuses every
  batch.
\<close>

definition accepting_add :: store_add where
  "accepting_add records ids texts metas embeddings =
     (records @
        map (\<lambda>(i, t, m, e). \<lparr>rec_id = i, rec_content = t, rec_metadata = m, rec_embedding = e\<rparr>)
          (zip ids (zip texts (zip metas embeddings))),
      None)"

definition refusing_add :: store_add where
  "refusing_add records ids texts metas embeddings =
     (records, Some (StoreError ''DuplicateIDError''))"

definition empty_store :: HealthcareVectorDB where
  "empty_store = \<lparr>use_custom_embeddings = True, embedding_model = None, collection = []\<rparr>"

definition faq_doc :: Document where
  "faq_doc = \<lparr>content = ''Q: Where can I park?\<newline>A: In the main lot.'',
              metadata = [(''type'', PyStr ''faq''), (''category'', PyStr ''general'')],
              source = ''hospital_faqs''\<rparr>"

definition dept_doc :: Document where
  "dept_doc = \<lparr>content = ''Department: Cardiology'',
               metadata = [(''type'', PyStr ''department'')],
               source = ''department_policies''\<rparr>"

definition populated_store :: HealthcareVectorDB where
  "populated_store =
     \<lparr>use_custom_embeddings = False, embedding_model = None,
      collection = [\<lparr>rec_id = ''hospital_faqs_0'', rec_content = content faq_doc,
                     rec_metadata = metadata faq_doc, rec_embedding = replicate 384 0\<rparr>]\<rparr>"

definition twenty_tokens :: string where
  "twenty_tokens = ''a b c d e f g h i j k l m n o p q r s t ''"

definition no_llm :: "string \<Rightarrow> string \<Rightarrow> string option" where
  "no_llm system_message human = None"

definition sample_pipeline :: HealthcareRAGPipeline where
  "sample_pipeline =
     \<lparr>vector_db = empty_store, use_advanced_llm = False, schema_available = False,
      llm = no_llm\<rparr>"

text \<open>The store library's answer on an empty collection: one empty list per query.\<close>

definition empty_knn :: knn_query where
  "empty_knn records query_embedding n_results filter_metadata =
     \<lparr>qr_documents = [[]], qr_metadatas = [[]], qr_distances = [[]]\<rparr>"

text \<open>An answer with two documents, at distances 0.25 and 0.5.\<close>

definition two_doc_knn :: knn_query where
  "two_doc_knn records query_embedding n_results filter_metadata =
     \<lparr>qr_documents = [[content faq_doc, content dept_doc]],
      qr_metadatas = [[metadata faq_doc, metadata dept_doc]],
      qr_distances = [[1 / 4, 1 / 2]]\<rparr>"


definition sample_clock :: clock where
  "sample_clock =
     \<lparr>now_session_id = ''20240101_093000'', now_isoformat = ''2024-01-01T09:30:00'',
      in_two_hours = ''11:30 AM today''\<rparr>"

definition fresh_system :: PatientIntakeSystem where
  "fresh_system = new_system sample_pipeline"

definition infant_with_fever :: PatientIntakeSystem where
  "infant_with_fever =
     (case collect_symptoms (collect_basic_info sample_clock fresh_system 0 ''female'')
             ''fever'' [''fever''] ''1-6 hours'' ''moderate'' None of
        Inl e \<Rightarrow> fresh_system
      | Inr s \<Rightarrow> s)"

definition elderly_chest_pain :: PatientIntakeSystem where
  "elderly_chest_pain =
     (case collect_symptoms (collect_basic_info sample_clock fresh_system 70 ''Male'')
             ''mild chest pain'' [] ''1-6 hours'' ''mild'' None of
        Inl e \<Rightarrow> fresh_system
      | Inr s \<Rightarrow> s)"

definition two_docs :: "context_doc list" where
  "two_docs =
     [\<lparr>doc_content = content faq_doc, doc_metadata = metadata faq_doc, doc_distance = 1 / 4\<rparr>,
      \<lparr>doc_content = content dept_doc, doc_metadata = metadata dept_doc, doc_distance = 1 / 2\<rparr>]"


definition started_system :: PatientIntakeSystem where
  "started_system = start_new_intake sample_clock fresh_system"

definition infant_patient :: PatientInfo where
  "infant_patient =
     (new_patient sample_clock)
       \<lparr>age := Some 0, gender := Some ''female'', chief_complaint := Some ''fever'',
        symptoms := [''fever''], symptom_duration := Some ''1-6 hours'',
        symptom_severity := Some 5\<rparr>"

section \<open>Properties of the knowledge store\<close>

subsection \<open>Decimal rendering\<close>

lemma lt10_cases: "d < 10 \<Longrightarrow> d \<in> {0, 1, 2, 3, 4, 5, 6, 7, 8, Suc 8}"
  by (auto simp: numeral_eq_Suc less_Suc_eq)

lemma digit_val_digit_char: "d < 10 \<Longrightarrow> digit_val (digit_char d) = d"
  by (drule lt10_cases) (auto simp: digit_val_def digit_char_def numeral_eq_Suc)

lemma digit_char_not_underscore: "d < 10 \<Longrightarrow> digit_char d \<noteq> CHR ''_''"
  by (drule lt10_cases) (auto simp: digit_char_def numeral_eq_Suc)

lemma nat_of_digits_str_nat: "nat_of_digits (str_nat n) = n"
proof (induction n rule: str_nat.induct)
  case (1 n)
  show ?case
  proof (cases "n < 10")
    case True
    then show ?thesis
      by (subst str_nat.simps) (simp add: nat_of_digits_def digit_val_digit_char)
  next
    case False
    with 1 have ih: "nat_of_digits (str_nat (n div 10)) = n div 10" by simp
    have "nat_of_digits (str_nat n) =
          10 * nat_of_digits (str_nat (n div 10)) + digit_val (digit_char (n mod 10))"
      using False by (subst str_nat.simps) (simp add: nat_of_digits_def)
    then show ?thesis using ih by (simp add: digit_val_digit_char)
  qed
qed

lemma str_nat_inj: "str_nat m = str_nat n \<Longrightarrow> m = n"
  by (metis nat_of_digits_str_nat)

lemma str_nat_no_underscore: "CHR ''_'' \<notin> set (str_nat n)"
proof (induction n rule: str_nat.induct)
  case (1 n)
  show ?case
  proof (cases "n < 10")
    case True
    then show ?thesis
      using digit_char_not_underscore [of n] by (subst str_nat.simps) auto
  next
    case False
    with 1 have "CHR ''_'' \<notin> set (str_nat (n div 10))" by simp
    moreover have "digit_char (n mod 10) \<noteq> CHR ''_''"
      by (rule digit_char_not_underscore) simp
    ultimately show ?thesis using False by (subst str_nat.simps) auto
  qed
qed

subsection \<open>Record ids\<close>

lemma suffix_after_sep:
  assumes "a @ u # x = b @ u # y" and "u \<notin> set x" and "u \<notin> set y"
  shows "x = y"
proof -
  have "rev x @ u # rev a = rev y @ u # rev b"
    using assms(1) by (metis rev_append rev.simps(2) append_assoc append_Cons append_Nil)
  then have "takeWhile (\<lambda>c. c \<noteq> u) (rev x @ u # rev a) =
             takeWhile (\<lambda>c. c \<noteq> u) (rev y @ u # rev b)"
    by simp
  moreover have "takeWhile (\<lambda>c. c \<noteq> u) (rev x @ u # rev a) = rev x"
    using assms(2) by (auto simp: takeWhile_tail)
  moreover have "takeWhile (\<lambda>c. c \<noteq> u) (rev y @ u # rev b) = rev y"
    using assms(3) by (auto simp: takeWhile_tail)
  ultimately show ?thesis by simp
qed

lemma doc_id_index: "doc_id (i, d) = doc_id (j, e) \<Longrightarrow> i = j"
  unfolding doc_id_def
  using suffix_after_sep [of "source d" "CHR ''_''" "str_nat i" "source e" "str_nat j"]
  by (simp add: str_nat_no_underscore str_nat_inj)

lemma doc_id_inj_on: "inj_on doc_id (set (enumerate n ds))"
proof (rule inj_onI)
  fix p q
  assume p: "p \<in> set (enumerate n ds)" and q: "q \<in> set (enumerate n ds)"
    and eq: "doc_id p = doc_id q"
  obtain i d where pd: "p = (i, d)" by (cases p)
  obtain j e where qe: "q = (j, e)" by (cases q)
  from eq pd qe have "i = j" by (auto dest: doc_id_index)
  moreover from p pd have "d = ds ! (i - n)" by (simp add: in_set_enumerate_eq)
  moreover from q qe have "e = ds ! (j - n)" by (simp add: in_set_enumerate_eq)
  ultimately show "p = q" using pd qe by simp
qed

lemma distinct_doc_ids: "distinct (map doc_id (enumerate 0 ds))"
  by (simp add: distinct_map doc_id_inj_on)

lemma distinct_document_ids: "distinct (document_ids ds)"
  by (simp add: document_ids_def distinct_doc_ids)

lemma length_document_ids: "length (document_ids ds) = length ds"
  by (simp add: document_ids_def)

lemma nth_document_ids:
  "i < length ds \<Longrightarrow> document_ids ds ! i = source (ds ! i) @ ''_'' @ str_nat i"
  by (simp add: document_ids_def nth_enumerate_eq doc_id_def)

subsection \<open>The fallback embedding\<close>

lemma length_bump: "length (bump w k a) = length w"
  by (simp add: bump_def)

lemma length_embed_word: "length (embed_word h v iw) = length v"
  by (simp add: embed_word_def Let_def length_bump)

lemma length_foldl_embed_word: "length (foldl (embed_word h) v iws) = length v"
  by (induction iws arbitrary: v) (simp_all add: length_embed_word)

lemma length_raw_embedding: "length (raw_embedding h ws) = 384"
  by (simp add: raw_embedding_def length_foldl_embed_word)

lemma length_normalize: "length (normalize v) = length v"
  by (simp add: normalize_def Let_def)

lemma length_simple_embedding: "length (simple_embedding h t) = 384"
  by (simp add: simple_embedding_def length_normalize length_raw_embedding)

lemma sum_squares_nonneg: "0 \<le> sum_list (map (\<lambda>x. x * x) (v :: real list))"
  by (induction v) simp_all

lemma sum_squares_zero_iff:
  "sum_list (map (\<lambda>x. x * x) (v :: real list)) = 0 \<longleftrightarrow> (\<forall>x\<in>set v. x = 0)"
proof (induction v)
  case Nil
  then show ?case by simp
next
  case (Cons a v)
  have "a * a + sum_list (map (\<lambda>x. x * x) v) = 0 \<longleftrightarrow>
        a * a = 0 \<and> sum_list (map (\<lambda>x. x * x) v) = 0"
    using sum_squares_nonneg [of v] by (intro add_nonneg_eq_0_iff) simp_all
  with Cons show ?case by simp
qed

lemma l2_norm_pos_iff: "l2_norm v > 0 \<longleftrightarrow> (\<exists>x\<in>set v. x \<noteq> 0)"
proof -
  have "l2_norm v > 0 \<longleftrightarrow> sum_list (map (\<lambda>x. x * x) v) > 0"
    by (simp add: l2_norm_def)
  also have "\<dots> \<longleftrightarrow> sum_list (map (\<lambda>x. x * x) v) \<noteq> 0"
    using sum_squares_nonneg [of v] by linarith
  also have "\<dots> \<longleftrightarrow> (\<exists>x\<in>set v. x \<noteq> 0)"
    by (simp add: sum_squares_zero_iff)
  finally show ?thesis .
qed

lemma sum_squares_scaled:
  "sum_list (map (\<lambda>x. x * x) (map (\<lambda>x. x / n) (v :: real list))) =
   sum_list (map (\<lambda>x. x * x) v) / (n * n)"
  by (induction v) (simp_all add: add_divide_distrib)

lemma l2_norm_normalize:
  assumes "\<exists>x\<in>set v. x \<noteq> 0"
  shows "l2_norm (normalize v) = 1"
proof -
  let ?n = "l2_norm v"
  have pos: "?n > 0" using assms by (simp add: l2_norm_pos_iff)
  have nz: "sum_list (map (\<lambda>x. x * x) v) > 0"
    using pos by (simp add: l2_norm_def)
  have sq: "?n * ?n = sum_list (map (\<lambda>x. x * x) v)"
    by (simp add: l2_norm_def sum_squares_nonneg)
  have "l2_norm (normalize v) = sqrt (sum_list (map (\<lambda>x. x * x) v) / (?n * ?n))"
    using pos
    by (simp add: normalize_def Let_def l2_norm_def [of "map _ _"] sum_squares_scaled
          del: map_map)
  also have "\<dots> = sqrt 1" using nz sq by simp
  finally show ?thesis by simp
qed

lemma normalize_zero: "\<forall>x\<in>set v. x = 0 \<Longrightarrow> normalize v = v"
  using l2_norm_pos_iff [of v] by (auto simp: normalize_def Let_def)

lemma normalize_nonzero_iff:
  "(\<exists>x\<in>set (normalize v). x \<noteq> 0) \<longleftrightarrow> (\<exists>x\<in>set v. x \<noteq> 0)"
proof (cases "\<exists>x\<in>set v. x \<noteq> 0")
  case True
  then have "l2_norm (normalize v) = 1" by (rule l2_norm_normalize)
  then have "l2_norm (normalize v) > 0" by simp
  then show ?thesis using True by (simp add: l2_norm_pos_iff)
next
  case False
  then show ?thesis by (simp add: normalize_zero)
qed

lemma sum_list_bump:
  "k < length w \<Longrightarrow> sum_list (bump w k a) = sum_list w + a"
  unfolding bump_def
proof (induction w arbitrary: k)
  case Nil
  then show ?case by simp
next
  case (Cons x w)
  then show ?case by (cases k) simp_all
qed

lemma sum_list_bump_ge:
  "0 \<le> a \<Longrightarrow> sum_list w \<le> sum_list (bump w k a)"
proof (cases "k < length w")
  case True
  assume "0 \<le> a"
  with True show ?thesis by (simp add: sum_list_bump)
next
  case False
  then have "length w \<le> k" by simp
  then have "bump w k a = w" by (simp add: bump_def list_update_beyond)
  then show ?thesis by simp
qed

lemma sum_embed_word:
  assumes "length v = 384"
  shows "sum_list v + 1 / (real (fst iw) + 1) \<le> sum_list (embed_word h v iw)"
proof -
  let ?pos = "nat ((h (snd iw) mod 1000 * 13) mod 384)"
  let ?e1 = "bump v ?pos (1 / (real (fst iw) + 1))"
  have "?pos < length v" using assms by simp
  then have e1: "sum_list ?e1 = sum_list v + 1 / (real (fst iw) + 1)"
    by (rule sum_list_bump)
  have ge: "\<And>w k. sum_list w \<le> sum_list (bump w k 2)"
    by (rule sum_list_bump_ge) simp
  define e2 where "e2 = (if snd iw \<in> set [''pain'', ''chest'', ''heart'', ''emergency'']
                then bump ?e1 0 2 else ?e1)"
  define e3 where "e3 = (if snd iw \<in> set [''insurance'', ''copay'', ''coverage'']
                then bump e2 1 2 else e2)"
  define e4 where "e4 = (if snd iw \<in> set [''appointment'', ''schedule'', ''time'']
          then bump e3 2 2 else e3)"
  have "sum_list ?e1 \<le> sum_list e2" using ge [of ?e1 0] by (simp add: e2_def)
  also have "\<dots> \<le> sum_list e3" using ge [of e2 1] by (simp add: e3_def)
  also have "\<dots> \<le> sum_list e4" using ge [of e3 2] by (simp add: e4_def)
  finally have "sum_list ?e1 \<le> sum_list e4" .
  moreover have "embed_word h v iw = e4"
    by (simp add: embed_word_def Let_def e4_def e3_def e2_def)
  ultimately show ?thesis using e1 by simp
qed

lemma sum_embed_word_ge:
  assumes "length v = 384"
  shows "sum_list v \<le> sum_list (embed_word h v iw)"
proof -
  have "0 \<le> 1 / (real (fst iw) + 1)" by simp
  then show ?thesis using sum_embed_word [OF assms, of iw h] by linarith
qed

lemma foldl_embed_word_mono:
  assumes "length v = 384"
  shows "sum_list v \<le> sum_list (foldl (embed_word h) v iws)"
  using assms
proof (induction iws arbitrary: v)
  case Nil
  then show ?case by simp
next
  case (Cons iw iws)
  have "sum_list v \<le> sum_list (embed_word h v iw)"
    by (rule sum_embed_word_ge) (rule Cons.prems)
  also have "\<dots> \<le> sum_list (foldl (embed_word h) (embed_word h v iw) iws)"
    by (rule Cons.IH) (simp add: length_embed_word Cons.prems)
  finally show ?case by simp
qed

lemma raw_embedding_sum_pos:
  assumes "ws \<noteq> []"
  shows "0 < sum_list (raw_embedding h ws)"
proof -
  obtain w ws' where ws: "ws = w # ws'" using assms by (cases ws) auto
  let ?z = "replicate 384 (0::real)"
  have en: "enumerate 0 (take 20 ws) = (0, w) # enumerate 1 (take 19 ws')"
    by (simp add: ws)
  have "sum_list ?z + 1 / (real (fst (0::nat, w)) + 1) \<le> sum_list (embed_word h ?z (0, w))"
    by (rule sum_embed_word) simp
  then have "1 \<le> sum_list (embed_word h ?z (0, w))"
    by (simp add: sum_list_replicate)
  also have "\<dots> \<le> sum_list (foldl (embed_word h) (embed_word h ?z (0, w))
                            (enumerate 1 (take 19 ws')))"
    by (rule foldl_embed_word_mono) (simp add: length_embed_word)
  finally show ?thesis by (simp add: raw_embedding_def en)
qed

lemma sum_list_all_zero: "\<forall>x\<in>set v. x = (0::real) \<Longrightarrow> sum_list v = 0"
  by (induction v) simp_all

lemma raw_embedding_nonzero:
  assumes "ws \<noteq> []"
  shows "\<exists>x\<in>set (raw_embedding h ws). x \<noteq> 0"
proof (rule ccontr)
  assume "\<not> ?thesis"
  then have "\<forall>x\<in>set (raw_embedding h ws). x = 0" by simp
  then have "sum_list (raw_embedding h ws) = 0" by (rule sum_list_all_zero)
  with raw_embedding_sum_pos [OF assms, of h] show False by simp
qed

lemma raw_embedding_Nil: "raw_embedding h [] = replicate 384 0"
  by (simp add: raw_embedding_def)

lemma raw_embedding_take: "raw_embedding h (take 20 ws) = raw_embedding h ws"
  by (simp add: raw_embedding_def)





subsection \<open>Claims about the knowledge store\<close>

text \<open>
  C6, as stated, at a corpus of one FAQ document followed by one department document: the
  second document gets the id \<open>department_policies_1\<close> and, in a store that accepts the
  batch, is stored under it, while its sequential index among the documents of its own
  source is 0. The index in an id is the position in the whole list passed to
  \<open>add_documents\<close>.
\<close>

theorem add_documents_index_counterexample:
  "document_ids [faq_doc, dept_doc] = [''hospital_faqs_0'', ''department_policies_1'']
   \<and> map rec_id
       (collection (fst (add_documents sample_hash accepting_add empty_store [faq_doc, dept_doc])))
       = [''hospital_faqs_0'', ''department_policies_1'']
   \<and> index_within_source [faq_doc, dept_doc] 1 = 0
   \<and> rec_id
       (collection (fst (add_documents sample_hash accepting_add empty_store [faq_doc, dept_doc]))
          ! 1) \<noteq>
     source ([faq_doc, dept_doc] ! 1) @ ''_'' @ str_nat (index_within_source [faq_doc, dept_doc] 1)"
  by (simp add: add_documents_def document_ids_def accepting_add_def create_embeddings_def
        empty_store_def faq_doc_def dept_doc_def doc_id_def index_within_source_def
        str_nat.simps digit_char_def)

text \<open>
  C6, amended: for every document list passed to \<open>add_documents\<close>, the id assigned to the
  document at position \<open>i\<close> of the whole list, counted from 0, is \<open>"{source}_{i}"\<close>; the ids
  assigned in one call are pairwise distinct; and a non-empty list is handed over to
  \<open>collection.add\<close> under these ids, the store after the call and the exception raised
  being those of that call.
\<close>

theorem add_documents_ids:
  "length (document_ids documents) = length documents
   \<and> (\<forall>i<length documents.
         document_ids documents ! i = source (documents ! i) @ ''_'' @ str_nat i)
   \<and> distinct (document_ids documents)
   \<and> (documents \<noteq> [] \<longrightarrow>
        add_documents h add db documents =
          (db\<lparr>collection :=
                fst (add (collection db) (document_ids documents) (map content documents)
                       (map metadata documents)
                       (create_embeddings h db (map content documents)))\<rparr>,
           snd (add (collection db) (document_ids documents) (map content documents)
                  (map metadata documents)
                  (create_embeddings h db (map content documents)))))"
  by (simp add: length_document_ids nth_document_ids distinct_document_ids add_documents_def
        Let_def)

theorem add_documents_ids_witness:
  "[faq_doc, dept_doc] \<noteq> []
   \<and> document_ids [faq_doc, dept_doc] ! 1 = ''department_policies_1''
   \<and> distinct (document_ids [faq_doc, dept_doc])
   \<and> map rec_id
       (collection (fst (add_documents sample_hash accepting_add empty_store [faq_doc, dept_doc])))
       = document_ids [faq_doc, dept_doc]
   \<and> add_documents sample_hash refusing_add empty_store [faq_doc, dept_doc] =
       (empty_store, Some (StoreError ''DuplicateIDError''))"
proof -
  note t = add_documents_ids [of "[faq_doc, dept_doc]"]
  have nth: "document_ids [faq_doc, dept_doc] ! 1 = ''department_policies_1''"
    using t [of sample_hash accepting_add empty_store]
    by (simp add: dept_doc_def str_nat.simps digit_char_def)
  have dist: "distinct (document_ids [faq_doc, dept_doc])"
    using t [of sample_hash accepting_add empty_store] by blast
  have len: "length (document_ids [faq_doc, dept_doc]) = 2"
    using t [of sample_hash accepting_add empty_store] by simp
  have acc: "map rec_id
       (collection (fst (add_documents sample_hash accepting_add empty_store [faq_doc, dept_doc])))
       = document_ids [faq_doc, dept_doc]"
  proof -
    obtain a b where ab: "document_ids [faq_doc, dept_doc] = [a, b]"
      using len by (auto simp: length_Suc_conv numeral_2_eq_2)
    show ?thesis
      using t [of sample_hash accepting_add empty_store]
      by (simp add: ab accepting_add_def create_embeddings_def empty_store_def)
  qed
  have ref: "add_documents sample_hash refusing_add empty_store [faq_doc, dept_doc] =
       (empty_store, Some (StoreError ''DuplicateIDError''))"
    using t [of sample_hash refusing_add empty_store]
    by (simp add: refusing_add_def empty_store_def)
  from nth dist acc ref show ?thesis by simp
qed

text \<open>
  C7: \<open>setup_vector_database\<close>, called with \<open>reset\<close> at its default \<open>False\<close> on a store that
  holds at least one document, returns the store as it found it, whatever the corpus in the
  data directory is: the document count is unchanged, neither \<open>process_all_data\<close> nor
  \<open>add_documents\<close> is called, and nothing is raised.
\<close>

theorem setup_vector_database_populated:
  assumes "total_documents db > 0"
  shows "setup_vector_database h add corpus db False = (db, [], None)
    \<and> total_documents (fst (setup_vector_database h add corpus db False)) = total_documents db
    \<and> collection (fst (setup_vector_database h add corpus db False)) = collection db"
  using assms by (simp add: setup_vector_database_def)

theorem setup_vector_database_populated_witness:
  "total_documents populated_store > 0
   \<and> setup_vector_database sample_hash accepting_add [faq_doc, dept_doc] populated_store False =
       (populated_store, [], None)
   \<and> total_documents
       (fst (setup_vector_database sample_hash accepting_add [faq_doc, dept_doc] populated_store
               False)) = 1"
proof -
  have pop: "total_documents populated_store > 0"
    by (simp add: total_documents_def populated_store_def)
  have "total_documents populated_store = 1"
    by (simp add: total_documents_def populated_store_def)
  with pop
    setup_vector_database_populated [OF pop, of sample_hash accepting_add "[faq_doc, dept_doc]"]
  show ?thesis by simp
qed

text \<open>
  C8: for every input text the fallback embedding has length 384; it is determined by the
  first 20 whitespace tokens of the lowercased text; when it is not the zero vector its L2
  norm is 1 within \<open>10\<^sup>-\<^sup>6\<close> (in the exact arithmetic of the model the norm is 1); and when
  the accumulated vector is zero it is returned as it is.
\<close>

theorem simple_embedding_normalized:
  "length (simple_embedding h text) = 384
   \<and> (take 20 (py_split (py_lower text)) = take 20 (py_split (py_lower text'))
        \<longrightarrow> simple_embedding h text = simple_embedding h text')
   \<and> ((\<exists>x\<in>set (simple_embedding h text). x \<noteq> 0)
        \<longrightarrow> \<bar>l2_norm (simple_embedding h text) - 1\<bar> \<le> 1 / 10 ^ 6)
   \<and> ((\<forall>x\<in>set (raw_embedding h (py_split (py_lower text))). x = 0)
        \<longrightarrow> simple_embedding h text = raw_embedding h (py_split (py_lower text)))"
proof -
  let ?ws = "py_split (py_lower text)" and ?ws' = "py_split (py_lower text')"
  have "simple_embedding h text = simple_embedding h text'" if "take 20 ?ws = take 20 ?ws'"
  proof -
    have "raw_embedding h ?ws = raw_embedding h (take 20 ?ws)"
      by (simp add: raw_embedding_take)
    also have "\<dots> = raw_embedding h ?ws'"
      by (simp add: that raw_embedding_take)
    finally show ?thesis by (simp add: simple_embedding_def)
  qed
  moreover have "\<bar>l2_norm (simple_embedding h text) - 1\<bar> \<le> 1 / 10 ^ 6"
    if nz: "\<exists>x\<in>set (simple_embedding h text). x \<noteq> 0"
  proof -
    from nz have "\<exists>x\<in>set (raw_embedding h ?ws). x \<noteq> 0"
      by (simp add: simple_embedding_def normalize_nonzero_iff)
    then have "l2_norm (simple_embedding h text) = 1"
      unfolding simple_embedding_def by (rule l2_norm_normalize)
    then show ?thesis by simp
  qed
  moreover have "simple_embedding h text = raw_embedding h ?ws"
    if "\<forall>x\<in>set (raw_embedding h ?ws). x = 0"
    using that by (simp add: simple_embedding_def normalize_zero)
  ultimately show ?thesis by (simp add: length_simple_embedding)
qed

theorem simple_embedding_normalized_witness:
  "length (simple_embedding sample_hash (twenty_tokens @ ''pain'')) = 384
   \<and> simple_embedding sample_hash (twenty_tokens @ ''pain'') =
       simple_embedding sample_hash (twenty_tokens @ ''insurance copay'')
   \<and> \<bar>l2_norm (simple_embedding sample_hash (twenty_tokens @ ''pain'')) - 1\<bar> \<le> 1 / 10 ^ 6
   \<and> simple_embedding sample_hash ''   '' = replicate 384 0"
proof -
  have toks: "py_split (py_lower (twenty_tokens @ ''pain'')) =
      [''a'', ''b'', ''c'', ''d'', ''e'', ''f'', ''g'', ''h'', ''i'', ''j'', ''k'', ''l'', ''m'',
       ''n'', ''o'', ''p'', ''q'', ''r'', ''s'', ''t'', ''pain'']"
    by (simp add: twenty_tokens_def py_split_def py_lower_def lower_char_def py_isspace_def)
  have toks': "py_split (py_lower (twenty_tokens @ ''insurance copay'')) =
      [''a'', ''b'', ''c'', ''d'', ''e'', ''f'', ''g'', ''h'', ''i'', ''j'', ''k'', ''l'', ''m'',
       ''n'', ''o'', ''p'', ''q'', ''r'', ''s'', ''t'', ''insurance'', ''copay'']"
    by (simp add: twenty_tokens_def py_split_def py_lower_def lower_char_def py_isspace_def)
  have same: "take 20 (py_split (py_lower (twenty_tokens @ ''pain''))) =
      take 20 (py_split (py_lower (twenty_tokens @ ''insurance copay'')))"
    by (simp add: toks toks')
  have "\<exists>x\<in>set (raw_embedding sample_hash (py_split (py_lower (twenty_tokens @ ''pain'')))). x \<noteq> 0"
    by (rule raw_embedding_nonzero) (simp add: toks)
  then have nz: "\<exists>x\<in>set (simple_embedding sample_hash (twenty_tokens @ ''pain'')). x \<noteq> 0"
    by (simp add: simple_embedding_def normalize_nonzero_iff)
  have blank: "py_split (py_lower ''   '') = []"
    by (simp add: py_split_def py_lower_def lower_char_def py_isspace_def)
  then have zero: "\<forall>x\<in>set (raw_embedding sample_hash (py_split (py_lower ''   ''))). x = 0"
    by (simp add: raw_embedding_Nil)
  note t1 = simple_embedding_normalized
              [of sample_hash "twenty_tokens @ ''pain''" "twenty_tokens @ ''insurance copay''"]
  note t2 = simple_embedding_normalized [of sample_hash "''   ''" "''   ''"]
  have c1: "length (simple_embedding sample_hash (twenty_tokens @ ''pain'')) = 384"
    using t1 by blast
  have c2: "simple_embedding sample_hash (twenty_tokens @ ''pain'') =
            simple_embedding sample_hash (twenty_tokens @ ''insurance copay'')"
    using t1 same by blast
  have c3: "\<bar>l2_norm (simple_embedding sample_hash (twenty_tokens @ ''pain'')) - 1\<bar> \<le> 1 / 10 ^ 6"
    using t1 nz by blast
  have "simple_embedding sample_hash ''   '' =
        raw_embedding sample_hash (py_split (py_lower ''   ''))"
    using t2 zero by blast
  then have c4: "simple_embedding sample_hash ''   '' = replicate 384 0"
    by (simp only: blank raw_embedding_Nil)
  from c1 c2 c3 c4 show ?thesis by (intro conjI)
qed




section \<open>Properties of retrieval and response composition\<close>

subsection \<open>Rounding to a double\<close>















subsection \<open>The confidence formula\<close>








subsection \<open>Retrieval on the sample stores\<close>

lemma retrieve_context_no_documents:
  assumes "search h knn (vector_db p) query n None = Inr results"
    and "qr_documents results = [] \<or> hd (qr_documents results) = []"
  shows "retrieve_context h knn p query n = Inr []"
  using assms by (auto simp: retrieve_context_def split: list.splits)

lemma retrieve_context_empty_knn:
  "retrieve_context sample_hash empty_knn sample_pipeline query 5 = Inr []"
  by (simp add: retrieve_context_def search_def create_embeddings_def sample_pipeline_def
        empty_store_def empty_knn_def)

lemma retrieve_context_two_doc_knn:
  "retrieve_context sample_hash two_doc_knn sample_pipeline query 5 = Inr two_docs"
  by (simp add: retrieve_context_def search_def create_embeddings_def sample_pipeline_def
        empty_store_def two_doc_knn_def context_entry_def py_nth_def two_docs_def)


lemma next_steps_two_docs:
  "generate_next_steps (extract_triage_info two_docs) query = Inr general_steps"
  by (simp add: two_docs_def faq_doc_def dept_doc_def dict_get_def generate_next_steps_def
        truthy_dict_def)


lemma process_query_two_docs:
  "\<exists>response. process_query sample_hash two_doc_knn sample_pipeline query = Inr response"
  by (simp add: process_query_def retrieve_context_two_doc_knn next_steps_two_docs Let_def)










subsection \<open>Claims about the pipeline\<close>




text \<open>
  C4: when retrieval returns zero documents, \<open>process_query\<close> returns, without raising,
  the fixed fallback response: no sources, confidence exactly 0.1, no triage hint, the answer
  that says there is no specific information and gives the institution's direct contact,
  and exactly one next step, to contact the hospital directly.
\<close>

theorem process_query_empty_retrieval:
  assumes "retrieve_context h knn p query 5 = Inr []"
  shows "process_query h knn p query =
     Inr \<lparr>answer =
            ''I don't have specific information about that topic in our knowledge '' @
            ''base. Please contact SuperHealth Medical Center directly at (555) '' @
            ''123-HEALTH for assistance.'',
          sources = [],
          confidence = 1 / 10,
          triage_info = None,
          next_steps = Some
            [[CHR 0xC3, CHR 0xB0, CHR 0xC5, CHR 0xB8, CHR 0xE2, CHR 0x80, CHR 0x9C, CHR 0xC5,
              CHR 0xBE] @ '' Contact hospital directly for assistance'']\<rparr>"
  using assms by (simp add: process_query_def fallback_response_def)

theorem process_query_empty_retrieval_witness:
  "retrieve_context sample_hash empty_knn sample_pipeline ''parking'' 5 = Inr []
   \<and> map_sum id sources (process_query sample_hash empty_knn sample_pipeline ''parking'') = Inr []
   \<and> map_sum id confidence (process_query sample_hash empty_knn sample_pipeline ''parking'')
       = Inr (1 / 10)
   \<and> map_sum id (map_option length \<circ> next_steps)
       (process_query sample_hash empty_knn sample_pipeline ''parking'') = Inr (Some 1)"
  using process_query_empty_retrieval [OF retrieve_context_empty_knn, of "''parking''"]
  by (simp add: retrieve_context_empty_knn)

section \<open>Properties of intake and triage\<close>

subsection \<open>The sample sessions\<close>

lemma infant_state: "infant_with_fever = fresh_system\<lparr>current_patient := Some infant_patient\<rparr>"
  by (simp add: infant_with_fever_def infant_patient_def fresh_system_def new_system_def
        collect_basic_info_def collect_symptoms_def start_new_intake_def new_patient_def
        severity_score_def severity_mappings_def py_lower_def lower_char_def)

lemma infant_text: "symptoms_text infant_patient = ''fever fever''"
  by (simp add: symptoms_text_def infant_patient_def new_patient_def or_empty_def
        py_lower_def lower_char_def)

lemma infant_flags: "emergency_flags infant_patient = []"
  by (simp add: emergency_flags_def keyword_flags_def severity_flags_def age_flags_def
        infant_text emergency_keywords_def startswith_def)
    (simp add: infant_patient_def new_patient_def)

lemma infant_indicator: "spec_emergency_indicator infant_patient"
proof -
  have "age infant_patient = Some 0" by (simp add: infant_patient_def)
  moreover have "py_in ''fever'' (symptoms_text infant_patient)"
    by (simp add: infant_text startswith_def)
  ultimately show ?thesis by (simp add: spec_emergency_indicator_def)
qed

lemma infant_query: "build_triage_query infant_patient = ''fever fever moderate symptoms''"
  by (simp add: build_triage_query_def infant_patient_def new_patient_def truthy_str_def
        or_empty_def)

lemma process_query_empty_knn:
  "process_query sample_hash empty_knn sample_pipeline query = Inr fallback_response"
  by (simp add: process_query_def retrieve_context_empty_knn)

subsection \<open>The emergency fast path\<close>

lemma severity_flag_not_age_flag:
  "''Fever in young child'' \<notin> set (severity_flags p)
   \<and> ''Chest pain in elderly patient'' \<notin> set (severity_flags p)"
  by (simp add: severity_flags_def split: option.splits)

lemma keyword_flag_not_age_flag:
  "''Fever in young child'' \<notin> set (keyword_flags p)
   \<and> ''Chest pain in elderly patient'' \<notin> set (keyword_flags p)"
  by (auto simp: keyword_flags_def)

lemma age_flags_skipped: "age p = None \<or> age p = Some 0 \<Longrightarrow> age_flags p = []"
  by (auto simp: age_flags_def)

lemma keyword_flags_nonempty:
  "\<exists>keyword \<in> set emergency_keywords. py_in keyword (symptoms_text p)
   \<Longrightarrow> keyword_flags p \<noteq> []"
  by (auto simp: keyword_flags_def filter_empty_conv)

text \<open>
  Away from age 0 every indicator of the specification raises a flag, and a flag sends
  \<open>generate_triage_recommendation\<close> to the fixed emergency recommendation with no query
  submitted to the pipeline.
\<close>

lemma indicator_flags:
  assumes "spec_emergency_indicator p" and "age p \<noteq> Some 0"
  shows "emergency_flags p \<noteq> []"
proof -
  consider (kw) "\<exists>keyword \<in> set emergency_keywords. py_in keyword (symptoms_text p)"
    | (sev) n where "symptom_severity p = Some n" "n \<ge> 8"
    | (old) a where "age p = Some a" "a \<ge> 65" "py_in ''chest pain'' (symptoms_text p)"
    | (young) a where "age p = Some a" "a < 5" "py_in ''fever'' (symptoms_text p)"
    using assms(1) by (auto simp: spec_emergency_indicator_def split: option.splits)
  then show ?thesis
  proof cases
    case kw
    then show ?thesis by (simp add: emergency_flags_def keyword_flags_nonempty)
  next
    case sev
    then show ?thesis by (simp add: emergency_flags_def severity_flags_def)
  next
    case old
    then show ?thesis by (simp add: emergency_flags_def age_flags_def)
  next
    case young
    then show ?thesis using assms(2) by (simp add: emergency_flags_def age_flags_def)
  qed
qed

lemma emergency_fast_path:
  assumes "current_patient s = Some p" and "emergency_flags p \<noteq> []"
  shows "generate_triage_recommendation h knn s =
           ([], Inr (generate_emergency_recommendation (emergency_flags p)))"
  using assms by (simp add: generate_triage_recommendation_def check_emergency_indicators_def)

lemma emergency_recommendation_fields:
  "urgency_level (generate_emergency_recommendation flags) = PyStr ''EMERGENCY''
   \<and> priority_score (generate_emergency_recommendation flags) = PyInt 1
   \<and> estimated_wait_time (generate_emergency_recommendation flags) = PyStr ''0-5 minutes''
   \<and> warning_signs (generate_emergency_recommendation flags) = flags"
  by (simp add: generate_emergency_recommendation_def)

lemma emergency_fast_path_nonzero_age:
  assumes "current_patient s = Some p" and "spec_emergency_indicator p" and "age p \<noteq> Some 0"
  shows "generate_triage_recommendation h knn s =
           ([], Inr (generate_emergency_recommendation (snd (check_emergency_indicators s))))"
  using emergency_fast_path [OF assms(1) indicator_flags [OF assms(2,3)]] assms(1)
  by (simp add: check_emergency_indicators_def)

subsection \<open>Claims about intake and triage\<close>

text \<open>
  C1, at a patient of age 0 whose chief complaint and symptom are ``fever'', with moderate
  severity: the indicator ``age below 5 with fever in the text'' holds, yet
  \<open>check_emergency_indicators\<close> raises no flag, and \<open>generate_triage_recommendation\<close>
  submits the query \<open>fever fever moderate symptoms\<close> to the pipeline and, on an empty
  store, returns a ROUTINE recommendation of priority 3. The guard \<open>if
  self.current_patient.age:\<close> takes age 0 for a missing age.
\<close>

theorem infant_with_fever_not_emergency:
  "current_patient infant_with_fever = Some infant_patient
   \<and> age infant_patient = Some 0
   \<and> py_in ''fever'' (symptoms_text infant_patient)
   \<and> spec_emergency_indicator infant_patient
   \<and> check_emergency_indicators infant_with_fever = (False, [])
   \<and> fst (generate_triage_recommendation sample_hash empty_knn infant_with_fever) =
       [''fever fever moderate symptoms'']
   \<and> map_sum id urgency_level
       (snd (generate_triage_recommendation sample_hash empty_knn infant_with_fever)) =
       Inr (PyStr ''ROUTINE'')
   \<and> map_sum id priority_score
       (snd (generate_triage_recommendation sample_hash empty_knn infant_with_fever)) =
       Inr (PyInt 3)"
proof -
  have a: "current_patient infant_with_fever = Some infant_patient"
    by (simp add: infant_state)
  have b: "age infant_patient = Some 0" by (simp add: infant_patient_def)
  have c: "py_in ''fever'' (symptoms_text infant_patient)"
    by (simp add: infant_text startswith_def)
  have d: "check_emergency_indicators infant_with_fever = (False, [])"
    by (simp add: check_emergency_indicators_def a infant_flags)
  have e: "fst (generate_triage_recommendation sample_hash empty_knn infant_with_fever) =
             [''fever fever moderate symptoms'']
      \<and> map_sum id urgency_level
         (snd (generate_triage_recommendation sample_hash empty_knn infant_with_fever)) =
         Inr (PyStr ''ROUTINE'')
      \<and> map_sum id priority_score
         (snd (generate_triage_recommendation sample_hash empty_knn infant_with_fever)) =
         Inr (PyInt 3)"
    by (simp add: generate_triage_recommendation_def infant_state check_emergency_indicators_def
          infant_flags ask_def infant_query fresh_system_def new_system_def
          process_query_empty_knn routine_recommendation_def fallback_response_def
          truthy_dict_def Let_def get_recommended_time_slots_def pyval_lower_def py_lower_def
          lower_char_def time_slots_def)
      (simp add: infant_patient_def new_patient_def truthy_str_def)
  from a b c d e infant_indicator show ?thesis by (intro conjI) simp_all
qed

text \<open>
  C2, as stated, on a system with no session started: \<open>collect_symptoms\<close> and
  \<open>generate_visit_plan\<close> both raise the built-in \<open>ValueError\<close>, told apart by their
  messages only; no exception class \<open>SessionNotStartedError\<close> or \<open>NoPatientDataError\<close>
  is raised.
\<close>

theorem session_errors_counterexample:
  "collect_symptoms fresh_system ''cough'' [''cough''] ''1-3 days'' ''mild'' None =
     Inl (ValueError ''Must start intake session first'')
   \<and> exc_class (ValueError ''Must start intake session first'') \<noteq> ''SessionNotStartedError''
   \<and> snd (generate_visit_plan sample_clock sample_hash empty_knn fresh_system) =
     Inl (ValueError ''No patient information available'')
   \<and> exc_class (ValueError ''No patient information available'') \<noteq> ''NoPatientDataError''"
  by (simp add: collect_symptoms_def generate_visit_plan_def fresh_system_def new_system_def)

text \<open>
  C2, amended: with no session started, \<open>collect_symptoms\<close>, \<open>collect_medical_history\<close>,
  \<open>collect_insurance_info\<close>, \<open>collect_contact_info\<close> and \<open>collect_preferences\<close> raise
  \<open>ValueError("Must start intake session first")\<close>; \<open>generate_visit_plan\<close> and
  \<open>generate_triage_recommendation\<close> raise \<open>ValueError("No patient information
  available")\<close>, submitting no query; \<open>collect_basic_info\<close> does not fail: it starts a
  session and records age and lowercased gender in it.
\<close>

theorem no_session_errors:
  assumes "current_patient s = None"
  shows "collect_symptoms s complaint syms duration severity location =
           Inl (ValueError ''Must start intake session first'')
    \<and> collect_medical_history s history medications allergy_list =
           Inl (ValueError ''Must start intake session first'')
    \<and> collect_insurance_info s provider member_id =
           Inl (ValueError ''Must start intake session first'')
    \<and> collect_contact_info s phone mail =
           Inl (ValueError ''Must start intake session first'')
    \<and> collect_preferences s time perception =
           Inl (ValueError ''Must start intake session first'')
    \<and> generate_visit_plan clk h knn s =
           ([], Inl (ValueError ''No patient information available''))
    \<and> generate_triage_recommendation h knn s =
           ([], Inl (ValueError ''No patient information available''))
    \<and> current_patient (collect_basic_info clk s a g) =
           Some ((new_patient clk)\<lparr>age := Some a, gender := Some (py_lower g)\<rparr>)"
  using assms
  by (simp add: collect_symptoms_def collect_medical_history_def collect_insurance_info_def
        collect_contact_info_def collect_preferences_def generate_visit_plan_def
        generate_triage_recommendation_def collect_basic_info_def start_new_intake_def)

theorem no_session_errors_witness:
  "current_patient fresh_system = None
   \<and> collect_symptoms fresh_system ''cough'' [''cough''] ''1-3 days'' ''mild'' None =
       Inl (ValueError ''Must start intake session first'')
   \<and> collect_preferences fresh_system ''morning'' ''not urgent'' =
       Inl (ValueError ''Must start intake session first'')
   \<and> generate_visit_plan sample_clock sample_hash empty_knn fresh_system =
       ([], Inl (ValueError ''No patient information available''))
   \<and> map_option age (current_patient (collect_basic_info sample_clock fresh_system 30 ''Female''))
       = Some (Some 30)
   \<and> map_option gender (current_patient (collect_basic_info sample_clock fresh_system 30 ''Female''))
       = Some (Some ''female'')"
proof -
  have none: "current_patient fresh_system = None"
    by (simp add: fresh_system_def new_system_def)
  note t = no_session_errors [OF none, of "''cough''" "[''cough'']" "''1-3 days''" "''mild''" None
      _ _ _ _ _ _ _ "''morning''" "''not urgent''" sample_clock sample_hash empty_knn 30 "''Female''"]
  from t have "current_patient (collect_basic_info sample_clock fresh_system 30 ''Female'') =
      Some ((new_patient sample_clock)\<lparr>age := Some 30, gender := Some (py_lower ''Female'')\<rparr>)"
    by blast
  then have basic:
    "map_option age (current_patient (collect_basic_info sample_clock fresh_system 30 ''Female''))
       = Some (Some 30)
     \<and> map_option gender
         (current_patient (collect_basic_info sample_clock fresh_system 30 ''Female''))
       = Some (Some ''female'')"
    by (simp add: py_lower_def lower_char_def)
  from t none basic show ?thesis by blast
qed

text \<open>
  The severity conversion by cases: a label of the table, compared after lowercasing, gives
  its score; any other string that \<open>int\<close> accepts gives that integer as it is; a string that
  is neither gives 5.
\<close>

lemma severity_score_cases:
  "(py_lower severity = ''mild'' \<longrightarrow> severity_score severity = 1)
    \<and> (py_lower severity = ''moderate'' \<longrightarrow> severity_score severity = 5)
    \<and> (py_lower severity = ''severe'' \<longrightarrow> severity_score severity = 9)
    \<and> (py_lower severity = ''unbearable'' \<longrightarrow> severity_score severity = 10)
    \<and> (py_lower severity \<notin> set [''mild'', ''moderate'', ''severe'', ''unbearable'']
         \<longrightarrow> (\<forall>n. py_int severity = Some n \<longrightarrow> severity_score severity = n)
           \<and> (py_int severity = None \<longrightarrow> severity_score severity = 5))"
proof -
  have labels: "(py_lower severity = ''mild'' \<longrightarrow> severity_score severity = 1)
    \<and> (py_lower severity = ''moderate'' \<longrightarrow> severity_score severity = 5)
    \<and> (py_lower severity = ''severe'' \<longrightarrow> severity_score severity = 9)
    \<and> (py_lower severity = ''unbearable'' \<longrightarrow> severity_score severity = 10)"
    by (simp add: severity_score_def severity_mappings_def)
  have other: "(\<forall>n. py_int severity = Some n \<longrightarrow> severity_score severity = n)
           \<and> (py_int severity = None \<longrightarrow> severity_score severity = 5)"
    if "py_lower severity \<notin> set [''mild'', ''moderate'', ''severe'', ''unbearable'']"
  proof -
    from that have "map_of severity_mappings (py_lower severity) = None"
      by (simp add: severity_mappings_def)
    then show ?thesis by (simp add: severity_score_def)
  qed
  from labels other show ?thesis by blast
qed

lemma collect_symptoms_stores_score:
  "current_patient s = Some patient \<Longrightarrow>
   stored_severity (collect_symptoms s complaint syms duration severity location) =
     Some (severity_score severity)"
  by (simp add: stored_severity_def collect_symptoms_def)

lemma severity_score_examples:
  "severity_score ''Severe'' = 9
   \<and> severity_score '' 7 '' = 7
   \<and> severity_score ''Very Severe'' = 5
   \<and> severity_score [CHR 0x1F, CHR ''9'', CHR 0x1F] = 5"
  by (simp add: severity_score_def severity_mappings_def py_lower_def lower_char_def
        py_int_def int_blank_def int_max_str_digits_def is_digit_def nat_of_digits_def
        digit_val_def)

text \<open>
  C5, at the severity string \<open>42\<close>: it is no label, \<open>int\<close> accepts it, and 42 is stored in
  the field \<open>symptom_severity\<close>, which the data class declares as a 1--10 scale. No range
  check follows the parse, and the emergency check then reports the flag
  \<open>High severity score: 42/10\<close>.
\<close>

theorem severity_out_of_scale:
  "stored_severity
     (collect_symptoms started_system ''cough'' [''cough''] ''1-3 days'' ''42'' None) = Some 42
   \<and> \<not> ((1::int) \<le> 42 \<and> (42::int) \<le> 10)
   \<and> map_sum id (\<lambda>s. map_option severity_flags (current_patient s))
       (collect_symptoms started_system ''cough'' [''cough''] ''1-3 days'' ''42'' None) =
       Inr (Some [''High severity score: 42/10''])"
proof -
  have score: "severity_score ''42'' = 42"
    by (simp add: severity_score_def severity_mappings_def py_lower_def lower_char_def
          py_int_def int_blank_def int_max_str_digits_def is_digit_def nat_of_digits_def
          digit_val_def)
  have shown: "str_int 42 = ''42''"
    by (simp add: str_int_def str_nat.simps digit_char_def)
  show ?thesis
    by (simp add: stored_severity_def collect_symptoms_def started_system_def
          start_new_intake_def score severity_flags_def shown)
qed

text \<open>
  C10: when the patient's age is unset or 0, \<open>check_emergency_indicators\<close> returns the
  keyword flags and the severity flag only: neither age rule adds its flag. A patient of
  age 0 with ``fever'' as symptom gets no flag at all, although 0 is below 5.
\<close>

theorem age_rules_skipped:
  assumes "current_patient s = Some patient"
    and "age patient = None \<or> age patient = Some 0"
  shows "snd (check_emergency_indicators s) = keyword_flags patient @ severity_flags patient
    \<and> ''Fever in young child'' \<notin> set (snd (check_emergency_indicators s))
    \<and> ''Chest pain in elderly patient'' \<notin> set (snd (check_emergency_indicators s))"
proof -
  have "age_flags patient = []" using assms(2) by (rule age_flags_skipped)
  then have "snd (check_emergency_indicators s) = keyword_flags patient @ severity_flags patient"
    using assms(1) by (simp add: check_emergency_indicators_def emergency_flags_def)
  then show ?thesis
    using severity_flag_not_age_flag [of patient] keyword_flag_not_age_flag [of patient]
    by simp
qed

theorem age_rules_skipped_witness:
  "current_patient infant_with_fever = Some infant_patient
   \<and> age infant_patient = Some 0
   \<and> symptoms infant_patient = [''fever'']
   \<and> (0::int) < 5
   \<and> snd (check_emergency_indicators infant_with_fever) = []
   \<and> ''Fever in young child'' \<notin> set (snd (check_emergency_indicators infant_with_fever))"
proof -
  have a: "current_patient infant_with_fever = Some infant_patient"
    by (simp add: infant_state)
  have b: "age infant_patient = None \<or> age infant_patient = Some 0"
    by (simp add: infant_patient_def)
  have "keyword_flags infant_patient @ severity_flags infant_patient = []"
    using infant_flags by (simp add: emergency_flags_def)
  with age_rules_skipped [OF a b] a show ?thesis
    by (simp add: infant_patient_def)
qed

end
